theory Spec2Isabelle
  imports Main
begin

section \<open>The Fastly destination plugin of lemur\<close>

text \<open>
  The development embeds \<^verbatim>\<open>lemur/plugins/lemur_fastly/plugin.py\<close> and the function
  \<^verbatim>\<open>common_name\<close> of \<^verbatim>\<open>lemur/common/defaults.py\<close>.  The plugin talks to a remote
  service over HTTP and reads certificates and keys through the \<^verbatim>\<open>cryptography\<close> and
  \<^verbatim>\<open>hashlib\<close> libraries.  Neither the service nor the libraries are part of the
  repository: they are parameters of the model (\<open>http\<close>, \<open>lib\<close>).  Every exception of the
  source is a value \<open>Inl e\<close>; every \<^verbatim>\<open>try/except\<close> of the source is a case distinction.
\<close>

subsection \<open>Exceptions, documents and requests\<close>

datatype exn = RequestException | HTTPError nat | ValueError | KeyError

text \<open>
  The documents of the service, reduced to the fields the plugin reads.  Identifiers, names
  and fingerprints are JSON strings.
\<close>

record key_doc =
  pk_id :: string
  pk_name :: string
  pk_sha1 :: string

record cert_doc =
  crt_id :: string
  crt_name :: string

record act_doc =
  act_id :: string
  act_cert :: string

text \<open>
  The payloads the plugin builds: \<^verbatim>\<open>data.type\<close> is the constructor, the arguments are the
  attributes (\<^verbatim>\<open>key\<close> and \<^verbatim>\<open>name\<close>; \<^verbatim>\<open>cert_blob\<close> and \<^verbatim>\<open>name\<close>; the identifier
  under \<^verbatim>\<open>relationships.tls_certificate.data.id\<close>).  A name that the plugin does not
  set is \<open>None\<close>.
\<close>

datatype payload =
  Tls_private_key string "string option"
| Tls_certificate string "string option"
| Tls_activation string

datatype request =
  Get string
| Post string payload
| Patch string payload
| Delete string

text \<open>
  A decoded response body, by the shape a helper reads from it.  In a listing, \<open>None\<close> is
  an element of \<^verbatim>\<open>data\<close> on which one of the helper's subscripts raises.  \<open>Created i\<close>
  is a body with \<^verbatim>\<open>data.id\<close> equal to \<open>i\<close>.  \<open>Other\<close> is any other body.
\<close>

datatype body =
  Private_keys "key_doc option list"
| Certificates "cert_doc option list"
| Activations "act_doc option list"
| Created string
| Other

type_synonym response = "exn + body"

text \<open>
  The remote side: a state \<open>'w\<close> and a function that answers a request and moves the
  state.  \<open>Inl e\<close> is every way in which \<^verbatim>\<open>requests\<close>, \<^verbatim>\<open>raise_for_status\<close> or
  \<^verbatim>\<open>resp.json()\<close> raises.
\<close>

type_synonym 'w http = "request \<Rightarrow> 'w \<Rightarrow> response \<times> 'w"

text \<open>A session is the remote state together with the calls made so far, oldest first.\<close>

record 'w session =
  world :: 'w
  calls :: "(request \<times> response) list"

definition requests :: "'w session \<Rightarrow> request list" where
  "requests s = map fst (calls s)"

definition send :: "'w http \<Rightarrow> request \<Rightarrow> 'w session \<Rightarrow> response \<times> 'w session" where
  "send http rq s =
     (case http rq (world s) of
        (r, w) \<Rightarrow> (r, \<lparr>world = w, calls = calls s @ [(rq, r)]\<rparr>))"

text \<open>The functions \<^verbatim>\<open>_get\<close>, \<^verbatim>\<open>_post\<close>, \<^verbatim>\<open>_patch\<close> and \<^verbatim>\<open>_delete\<close>.\<close>

definition http_get :: "'w http \<Rightarrow> string \<Rightarrow> 'w session \<Rightarrow> response \<times> 'w session" where
  "http_get http path s = send http (Get path) s"

definition http_post ::
  "'w http \<Rightarrow> string \<Rightarrow> payload \<Rightarrow> 'w session \<Rightarrow> response \<times> 'w session" where
  "http_post http path data s = send http (Post path data) s"

definition http_patch ::
  "'w http \<Rightarrow> string \<Rightarrow> payload \<Rightarrow> 'w session \<Rightarrow> (exn + unit) \<times> 'w session" where
  "http_patch http path data s =
     (case send http (Patch path data) s of
        (Inl e, s') \<Rightarrow> (Inl e, s')
      | (Inr b, s') \<Rightarrow> (Inr (), s'))"

definition http_delete :: "'w http \<Rightarrow> string \<Rightarrow> 'w session \<Rightarrow> (exn + unit) \<times> 'w session" where
  "http_delete http path s =
     (case send http (Delete path) s of
        (Inl e, s') \<Rightarrow> (Inl e, s')
      | (Inr b, s') \<Rightarrow> (Inr (), s'))"

subsection \<open>The libraries\<close>

datatype encoding = PEM | DER

text \<open>
  \<open>parse_certificate\<close> gives the values of the common-name attributes of the subject, or
  the exception that reading them raises; \<open>load_pem_private_key\<close> gives the public key of
  the private key it parses; \<open>public_bytes\<close> serialises a public key as
  SubjectPublicKeyInfo in the given encoding; \<open>sha1_hexdigest\<close> is
  \<^verbatim>\<open>hashlib.sha1(...).hexdigest()\<close>.
\<close>

record 'k lib =
  parse_certificate :: "string \<Rightarrow> exn + (exn + string list)"
  load_pem_private_key :: "string \<Rightarrow> exn + 'k"
  public_bytes :: "encoding \<Rightarrow> 'k \<Rightarrow> string"
  sha1_hexdigest :: "string \<Rightarrow> string"

subsection \<open>\<^verbatim>\<open>common_name\<close>\<close>

text \<open>The characters that \<^verbatim>\<open>str.strip()\<close> removes, among the first 256 code points.\<close>

definition whitespace :: "char \<Rightarrow> bool" where
  "whitespace c = (of_char c \<in> {9, 10, 11, 12, 13, 28, 29, 30, 31, 32, 133, 160 :: nat})"

definition strip :: "string \<Rightarrow> string" where
  "strip v = rev (dropWhile whitespace (rev (dropWhile whitespace v)))"

definition common_name :: "exn + string list \<Rightarrow> string option" where
  "common_name cert =
     (case cert of
        Inl e \<Rightarrow> None
      | Inr subject_oid \<Rightarrow>
          (case subject_oid of [] \<Rightarrow> None | a # rest \<Rightarrow> Some (strip a)))"

subsection \<open>The helpers of the plugin\<close>

definition get_public_key_sha1 :: "'k lib \<Rightarrow> string \<Rightarrow> exn + string" where
  "get_public_key_sha1 lib private_key =
     (case load_pem_private_key lib private_key of
        Inl e \<Rightarrow> Inl e
      | Inr private_obj \<Rightarrow> Inr (sha1_hexdigest lib (public_bytes lib PEM private_obj)))"

text \<open>The entries that a listing loop has appended when it ends or raises.\<close>

fun appended :: "'a option list \<Rightarrow> 'a list" where
  "appended [] = []"
| "appended (None # rest) = []"
| "appended (Some each # rest) = each # appended rest"

text \<open>
  Each helper wraps one call in \<^verbatim>\<open>try/except Exception\<close> and returns the value its
  variable holds at the end.  The functions \<open>read_\<dots>\<close> are the \<^verbatim>\<open>try\<close> blocks as
  functions of the outcome of the call: an exception, or a body of another shape (on which
  a subscript raises), leaves the initial value.
\<close>

definition read_private_keys :: "response \<Rightarrow> key_doc list" where
  "read_private_keys r = (case r of Inr (Private_keys jdata) \<Rightarrow> appended jdata | _ \<Rightarrow> [])"

definition get_all_private_keys :: "'w http \<Rightarrow> 'w session \<Rightarrow> key_doc list \<times> 'w session" where
  "get_all_private_keys http s =
     (case http_get http ''/tls/private_keys'' s of (r, s') \<Rightarrow> (read_private_keys r, s'))"

definition read_certificates :: "response \<Rightarrow> cert_doc list" where
  "read_certificates r = (case r of Inr (Certificates jdata) \<Rightarrow> appended jdata | _ \<Rightarrow> [])"

definition get_all_certificates :: "'w http \<Rightarrow> 'w session \<Rightarrow> cert_doc list \<times> 'w session" where
  "get_all_certificates http s =
     (case http_get http ''/tls/certificates'' s of (r, s') \<Rightarrow> (read_certificates r, s'))"

definition read_created :: "response \<Rightarrow> string option" where
  "read_created r = (case r of Inr (Created i) \<Rightarrow> Some i | _ \<Rightarrow> None)"

definition post_private_key ::
  "'w http \<Rightarrow> string \<Rightarrow> string option \<Rightarrow> 'w session \<Rightarrow> string option \<times> 'w session" where
  "post_private_key http private_key name s =
     (case http_post http ''/tls/private_keys'' (Tls_private_key private_key name) s of
        (r, s') \<Rightarrow> (read_created r, s'))"

definition delete_private_key :: "'w http \<Rightarrow> string \<Rightarrow> 'w session \<Rightarrow> 'w session" where
  "delete_private_key http key_id s = snd (http_delete http (''/tls/private_keys/'' @ key_id) s)"

text \<open>Python's truth value of a variable that holds \<^verbatim>\<open>None\<close> or a string.\<close>

definition truthy :: "string option \<Rightarrow> bool" where
  "truthy v = (case v of None \<Rightarrow> False | Some x \<Rightarrow> x \<noteq> [])"

definition certificate_payload :: "string \<Rightarrow> string \<Rightarrow> string option \<Rightarrow> payload" where
  "certificate_payload cert chain name =
     (let full_cert = cert @ [CHR 0x0A] @ chain
      in Tls_certificate full_cert (if truthy name then name else None))"

definition post_certificate ::
  "'w http \<Rightarrow> string \<Rightarrow> string \<Rightarrow> string option \<Rightarrow> 'w session \<Rightarrow> string option \<times> 'w session" where
  "post_certificate http cert chain name s =
     (case http_post http ''/tls/certificates'' (certificate_payload cert chain name) s of
        (r, s') \<Rightarrow> (read_created r, s'))"

definition delete_certificate :: "'w http \<Rightarrow> string \<Rightarrow> 'w session \<Rightarrow> 'w session" where
  "delete_certificate http key_id s = snd (http_delete http (''/tls/certificates/'' @ key_id) s)"

text \<open>
  The loop of \<^verbatim>\<open>get_activation\<close>: the identifiers of the activations whose certificate is
  \<open>cert_id\<close>, up to the first element that raises.  \<open>cert_id\<close> may be \<^verbatim>\<open>None\<close>, which no
  identifier equals.
\<close>

fun matching :: "string option \<Rightarrow> act_doc option list \<Rightarrow> string list" where
  "matching cert_id [] = []"
| "matching cert_id (None # rest) = []"
| "matching cert_id (Some each # rest) =
     (if Some (act_cert each) = cert_id then act_id each # matching cert_id rest
      else matching cert_id rest)"

definition read_activation :: "string option \<Rightarrow> response \<Rightarrow> string list" where
  "read_activation cert_id r =
     (case r of Inr (Activations jdata) \<Rightarrow> matching cert_id jdata | _ \<Rightarrow> [])"

definition get_activation ::
  "'w http \<Rightarrow> string option \<Rightarrow> 'w session \<Rightarrow> string list \<times> 'w session" where
  "get_activation http cert_id s =
     (case http_get http ''/tls/activations'' s of (r, s') \<Rightarrow> (read_activation cert_id r, s'))"

definition patch_activation :: "'w http \<Rightarrow> string \<Rightarrow> string \<Rightarrow> 'w session \<Rightarrow> 'w session" where
  "patch_activation http act cert_id s =
     snd (http_patch http (''/tls/activations/'' @ act) (Tls_activation cert_id) s)"

subsection \<open>\<^verbatim>\<open>upload\<close>\<close>

text \<open>The inner loop of the lookup: the last certificate of the name overwrites \<open>cert_id\<close>.\<close>

fun scan_certs :: "string option \<Rightarrow> cert_doc list \<Rightarrow> string option \<Rightarrow> string option" where
  "scan_certs cname [] cert_id = cert_id"
| "scan_certs cname (cert # rest) cert_id =
     scan_certs cname rest (if Some (crt_name cert) = cname then Some (crt_id cert) else cert_id)"

text \<open>
  The outer loop, over the private keys, on the variables \<open>(priv_id, cert_id, name_found)\<close>.
  A key of the name with the fingerprint of the new key ends the loop (\<^verbatim>\<open>break\<close>) with
  \<open>priv_id = None\<close>; a key of the name with another fingerprint is remembered and the loop
  goes on.  \<^verbatim>\<open>get_public_key_sha1\<close> is called at each key of the name and its exception
  leaves \<^verbatim>\<open>upload\<close>.
\<close>

type_synonym found = "string option \<times> string option \<times> bool"

fun scan_keys ::
  "'k lib \<Rightarrow> string \<Rightarrow> string option \<Rightarrow> cert_doc list \<Rightarrow> key_doc list \<Rightarrow> found \<Rightarrow> exn + found" where
  "scan_keys lib private_key cname cert_keys [] v = Inr v"
| "scan_keys lib private_key cname cert_keys (each # rest) (priv_id, cert_id, name_found) =
     (if Some (pk_name each) = cname then
        (case get_public_key_sha1 lib private_key of
           Inl e \<Rightarrow> Inl e
         | Inr sha1 \<Rightarrow>
             if pk_sha1 each = sha1 then Inr (None, cert_id, True)
             else scan_keys lib private_key cname cert_keys rest
                    (Some (pk_id each), scan_certs cname cert_keys cert_id, True))
      else scan_keys lib private_key cname cert_keys rest (priv_id, cert_id, name_found))"

definition lookup ::
  "'k lib \<Rightarrow> string \<Rightarrow> string option \<Rightarrow> cert_doc list \<Rightarrow> key_doc list \<Rightarrow> exn + found" where
  "lookup lib private_key cname cert_keys priv_keys =
     scan_keys lib private_key cname cert_keys priv_keys (None, None, False)"

text \<open>The condition \<^verbatim>\<open>if priv_id or not name_found\<close>.\<close>

definition upload_needed :: "found \<Rightarrow> bool" where
  "upload_needed v = (case v of (priv_id, cert_id, name_found) \<Rightarrow> truthy priv_id \<or> \<not> name_found)"

text \<open>The loop \<^verbatim>\<open>for each in act_id: patch_activation(each, new_cert_id)\<close>.\<close>

fun patch_each :: "'w http \<Rightarrow> string list \<Rightarrow> string \<Rightarrow> 'w session \<Rightarrow> 'w session" where
  "patch_each http [] new_cert_id s = s"
| "patch_each http (each # rest) new_cert_id s =
     patch_each http rest new_cert_id (patch_activation http each new_cert_id s)"

text \<open>
  The branch of \<^verbatim>\<open>upload\<close> that uploads, in two parts: the statements after
  \<^verbatim>\<open>get_activation\<close> (\<open>migrate\<close>), and the branch from \<^verbatim>\<open>post_private_key\<close> on
  (\<open>replace\<close>).  The value that \<^verbatim>\<open>post_private_key\<close> returns is not used.
\<close>

definition migrate ::
  "'w http \<Rightarrow> string list \<Rightarrow> string option \<Rightarrow> string option \<Rightarrow> string option \<Rightarrow>
     'w session \<Rightarrow> 'w session" where
  "migrate http acts new_cert_id cert_id priv_id s5 =
     (let s6 = (if length acts > 0 \<and> truthy new_cert_id
                then patch_each http acts (the new_cert_id) s5 else s5);
          s7 = (if truthy cert_id then delete_certificate http (the cert_id) s6 else s6)
      in if truthy priv_id then delete_private_key http (the priv_id) s7 else s7)"

definition replace ::
  "'w http \<Rightarrow> string \<Rightarrow> string \<Rightarrow> string \<Rightarrow> string option \<Rightarrow> found \<Rightarrow> 'w session \<Rightarrow> 'w session" where
  "replace http body private_key cert_chain cname v s2 =
     (case v of (priv_id, cert_id, name_found) \<Rightarrow>
        (case post_private_key http private_key cname s2 of (new_priv_id, s3) \<Rightarrow>
        (case post_certificate http body cert_chain cname s3 of (new_cert_id, s4) \<Rightarrow>
        (case get_activation http cert_id s4 of (acts, s5) \<Rightarrow>
           migrate http acts new_cert_id cert_id priv_id s5))))"

text \<open>
  \<^verbatim>\<open>upload\<close> returns \<^verbatim>\<open>None\<close> or raises; the parameters \<^verbatim>\<open>name\<close> and \<^verbatim>\<open>options\<close> are
  not read by its body, \<^verbatim>\<open>time.sleep\<close> and the debug log have no effect on the calls.
\<close>

definition upload ::
  "'k lib \<Rightarrow> 'w http \<Rightarrow> string \<Rightarrow> string \<Rightarrow> string \<Rightarrow> 'w session \<Rightarrow> (exn + unit) \<times> 'w session" where
  "upload lib http body private_key cert_chain s =
     (case parse_certificate lib body of
        Inl e \<Rightarrow> (Inl e, s)
      | Inr cert \<Rightarrow>
          (let cname = common_name cert
           in case get_all_private_keys http s of (priv_keys, s1) \<Rightarrow>
              (case get_all_certificates http s1 of (cert_keys, s2) \<Rightarrow>
              (case lookup lib private_key cname cert_keys priv_keys of
                 Inl e \<Rightarrow> (Inl e, s2)
               | Inr v \<Rightarrow>
                   if upload_needed v
                   then (Inr (), replace http body private_key cert_chain cname v s2)
                   else (Inr (), s2)))))"

subsection \<open>A model of the remote service\<close>

text \<open>
  Modelled from the spec: the remote service is not part of the repository.  The model is
  the resource store of the data model (sections 3 and 4.1): three collections, listed in
  the order of creation; a create adds a resource under an identifier that no resource
  has; an update re-points an activation; a delete removes a resource; a request for a
  resource that does not exist is answered 404.  The store keeps for a private key the
  fingerprint \<open>fp key\<close>, where \<open>fp\<close> is a parameter, and for a resource created without a
  name the empty name.
\<close>

record inventory =
  private_keys :: "key_doc list"
  certificates :: "cert_doc list"
  activations :: "act_doc list"

definition identifiers :: "inventory \<Rightarrow> string list" where
  "identifiers st =
     map pk_id (private_keys st) @ map crt_id (certificates st) @ map act_id (activations st)"

definition fresh_id :: "inventory \<Rightarrow> string" where
  "fresh_id st = replicate (Suc (foldr max (map length (identifiers st)) 0)) (CHR ''x'')"

text \<open>The identifier in a path \<open>collection/identifier\<close>.\<close>

definition member_of :: "string \<Rightarrow> string \<Rightarrow> string option" where
  "member_of collection path =
     (if take (Suc (length collection)) path = collection @ ''/''
      then Some (drop (Suc (length collection)) path) else None)"

definition unnamed :: "string option \<Rightarrow> string" where
  "unnamed name = (case name of None \<Rightarrow> [] | Some n \<Rightarrow> n)"

definition not_found :: "inventory \<Rightarrow> response \<times> inventory" where
  "not_found st = (Inl (HTTPError 404), st)"

fun serve :: "(string \<Rightarrow> string) \<Rightarrow> request \<Rightarrow> inventory \<Rightarrow> response \<times> inventory" where
  "serve fp (Get path) st =
     (if path = ''/tls/private_keys'' then (Inr (Private_keys (map Some (private_keys st))), st)
      else if path = ''/tls/certificates'' then (Inr (Certificates (map Some (certificates st))), st)
      else if path = ''/tls/activations'' then (Inr (Activations (map Some (activations st))), st)
      else not_found st)"
| "serve fp (Post path (Tls_private_key key name)) st =
     (if path = ''/tls/private_keys''
      then (Inr (Created (fresh_id st)),
            st\<lparr>private_keys := private_keys st @
              [\<lparr>pk_id = fresh_id st, pk_name = unnamed name, pk_sha1 = fp key\<rparr>]\<rparr>)
      else not_found st)"
| "serve fp (Post path (Tls_certificate blob name)) st =
     (if path = ''/tls/certificates''
      then (Inr (Created (fresh_id st)),
            st\<lparr>certificates := certificates st @
              [\<lparr>crt_id = fresh_id st, crt_name = unnamed name\<rparr>]\<rparr>)
      else not_found st)"
| "serve fp (Post path (Tls_activation c)) st = not_found st"
| "serve fp (Patch path (Tls_activation c)) st =
     (case member_of ''/tls/activations'' path of
        None \<Rightarrow> not_found st
      | Some a \<Rightarrow>
          if a \<in> set (map act_id (activations st))
          then (Inr Other,
                st\<lparr>activations :=
                  map (\<lambda>d. if act_id d = a then d\<lparr>act_cert := c\<rparr> else d) (activations st)\<rparr>)
          else not_found st)"
| "serve fp (Patch path (Tls_private_key key name)) st = not_found st"
| "serve fp (Patch path (Tls_certificate blob name)) st = not_found st"
| "serve fp (Delete path) st =
     (case member_of ''/tls/certificates'' path of
        Some c \<Rightarrow>
          if c \<in> set (map crt_id (certificates st))
          then (Inr Other, st\<lparr>certificates := filter (\<lambda>d. crt_id d \<noteq> c) (certificates st)\<rparr>)
          else not_found st
      | None \<Rightarrow>
          (case member_of ''/tls/private_keys'' path of
             Some k \<Rightarrow>
               if k \<in> set (map pk_id (private_keys st))
               then (Inr Other,
                     st\<lparr>private_keys := filter (\<lambda>d. pk_id d \<noteq> k) (private_keys st)\<rparr>)
               else not_found st
           | None \<Rightarrow> not_found st))"

text \<open>
  The service with failures: the state counts the requests received, and the request
  number \<open>n\<close> (from 0) fails, without effect on the inventory, when \<open>fails n\<close>.
\<close>

definition fastly :: "(string \<Rightarrow> string) \<Rightarrow> (nat \<Rightarrow> bool) \<Rightarrow> (nat \<times> inventory) http" where
  "fastly fp fails rq w =
     (case w of (n, st) \<Rightarrow>
        if fails n then (Inl RequestException, (Suc n, st))
        else (case serve fp rq st of (r, st') \<Rightarrow> (r, (Suc n, st'))))"

definition start :: "inventory \<Rightarrow> (nat \<times> inventory) session" where
  "start st = \<lparr>world = (0, st), calls = []\<rparr>"

definition final :: "(nat \<times> inventory) session \<Rightarrow> inventory" where
  "final s = snd (world s)"

text \<open>
  A call succeeded when it did not raise.  The re-pointing of the activations rests on three
  kinds of call: the create of the certificate, the listing of the activations and the
  updates of the activations.
\<close>

definition succeeded :: "response \<Rightarrow> bool" where
  "succeeded r = (case r of Inl e \<Rightarrow> False | Inr b \<Rightarrow> True)"

fun repointing :: "request \<Rightarrow> bool" where
  "repointing (Get path) = (path = ''/tls/activations'')"
| "repointing (Post path data) = (path = ''/tls/certificates'')"
| "repointing (Patch path data) = True"
| "repointing (Delete path) = False"

text \<open>A remote side without state, which answers each request by a fixed table.\<close>

definition scripted :: "(request \<Rightarrow> response) \<Rightarrow> unit http" where
  "scripted answer rq w = (answer rq, w)"

subsection \<open>Example inputs\<close>

text \<open>
  Stand-ins for the libraries, for evaluating runs: the certificate text is its own common
  name, a private key is its own public key, and the digest of a byte string is the byte
  string.
\<close>

definition example_lib :: "string lib" where
  "example_lib =
     \<lparr>parse_certificate = (\<lambda>body. Inr (Inr [body])),
      load_pem_private_key = (\<lambda>key. Inr key),
      public_bytes = (\<lambda>enc k. case enc of PEM \<Rightarrow> ''-----BEGIN PUBLIC KEY-----'' @ k | DER \<Rightarrow> k),
      sha1_hexdigest = (\<lambda>bytes. bytes)\<rparr>"

definition down :: "request \<Rightarrow> response" where
  "down rq = Inl RequestException"

definition empty_service :: "request \<Rightarrow> response" where
  "empty_service rq =
     (if rq = Get ''/tls/private_keys'' then Inr (Private_keys [])
      else if rq = Get ''/tls/certificates'' then Inr (Certificates [])
      else if rq = Get ''/tls/activations''
        then Inr (Activations [Some \<lparr>act_id = ''a1'', act_cert = ''c9''\<rparr>])
      else Inl (HTTPError 404))"

definition fresh :: "unit session" where
  "fresh = \<lparr>world = (), calls = []\<rparr>"

text \<open>
  Inventories of the service: none; a key, a certificate and two activations of the name
  \<open>example.com\<close>, the key with an old fingerprint (\<open>stale_inventory\<close>) or with the
  fingerprint of the key \<open>new\<close> (\<open>current_inventory\<close>).  \<open>example_fp\<close> is the fingerprint
  that \<open>example_lib\<close> computes.
\<close>

definition empty_inventory :: inventory where
  "empty_inventory = \<lparr>private_keys = [], certificates = [], activations = []\<rparr>"

definition example_fp :: "string \<Rightarrow> string" where
  "example_fp key = ''-----BEGIN PUBLIC KEY-----'' @ key"

text \<open>
  The fingerprint of a service that stores the digest of the DER encoding of the public
  key, with the stand-ins of \<open>example_lib\<close>.
\<close>

definition example_der_fp :: "string \<Rightarrow> string" where
  "example_der_fp key = sha1_hexdigest example_lib (public_bytes example_lib DER key)"

definition stale_inventory :: inventory where
  "stale_inventory =
     \<lparr>private_keys = [\<lparr>pk_id = ''k1'', pk_name = ''example.com'', pk_sha1 = ''old''\<rparr>],
      certificates = [\<lparr>crt_id = ''c1'', crt_name = ''example.com''\<rparr>],
      activations = [\<lparr>act_id = ''a1'', act_cert = ''c1''\<rparr>, \<lparr>act_id = ''a2'', act_cert = ''c1''\<rparr>]\<rparr>"

definition current_inventory :: inventory where
  "current_inventory =
     \<lparr>private_keys = [\<lparr>pk_id = ''k1'', pk_name = ''example.com'', pk_sha1 = example_fp ''new''\<rparr>],
      certificates = [\<lparr>crt_id = ''c1'', crt_name = ''example.com''\<rparr>],
      activations = [\<lparr>act_id = ''a1'', act_cert = ''c1''\<rparr>, \<lparr>act_id = ''a2'', act_cert = ''c1''\<rparr>]\<rparr>"

text \<open>Failure schedules: no request fails; only the request number \<open>k\<close> fails.\<close>

definition never :: "nat \<Rightarrow> bool" where
  "never n = False"

definition only :: "nat \<Rightarrow> nat \<Rightarrow> bool" where
  "only k n = (n = k)"

section \<open>Properties\<close>

subsection \<open>The helpers\<close>

lemma send_step:
  "http rq (world s) = (r, w) \<Longrightarrow> send http rq s = (r, \<lparr>world = w, calls = calls s @ [(rq, r)]\<rparr>)"
  by (simp add: send_def)

lemma read_simps [simp]:
  "read_private_keys (Inl e) = []" "read_certificates (Inl e) = []"
  "read_activation c (Inl e) = []" "read_created (Inl e) = None"
  "read_private_keys (Inr (Private_keys ds)) = appended ds"
  "read_certificates (Inr (Certificates cs)) = appended cs"
  "read_activation c (Inr (Activations as)) = matching c as"
  "read_created (Inr (Created i)) = Some i"
  by (simp_all add: read_private_keys_def read_certificates_def read_activation_def read_created_def)

lemma fst_get_all_private_keys:
  "fst (get_all_private_keys http s) = read_private_keys (fst (http_get http ''/tls/private_keys'' s))"
  by (simp add: get_all_private_keys_def split: prod.splits)

lemma fst_get_all_certificates:
  "fst (get_all_certificates http s) = read_certificates (fst (http_get http ''/tls/certificates'' s))"
  by (simp add: get_all_certificates_def split: prod.splits)

lemma fst_get_activation:
  "fst (get_activation http c s) = read_activation c (fst (http_get http ''/tls/activations'' s))"
  by (simp add: get_activation_def split: prod.splits)

lemma matching_none:
  "\<forall>d\<in>set ds. Some (act_cert d) \<noteq> c \<Longrightarrow> matching c (map Some ds) = []"
  by (induction ds) auto

lemma requests_start [simp]: "requests (start st) = []"
  by (simp add: requests_def start_def)

lemma fst_http_get_scripted: "fst (http_get (scripted f) p s) = f (Get p)"
  by (simp add: http_get_def send_def scripted_def)

text \<open>
  C10.  When \<^verbatim>\<open>_get\<close> raises, each of \<^verbatim>\<open>get_all_private_keys\<close>,
  \<^verbatim>\<open>get_all_certificates\<close> and \<^verbatim>\<open>get_activation\<close> returns the empty list, and that
  is the value it returns against any remote side whose listing is empty (for
  \<^verbatim>\<open>get_activation\<close>: whose activations all belong to other certificates).  The caller
  cannot tell the two apart.
\<close>

theorem failed_listing_reads_as_empty:
  "(fst (http_get http ''/tls/private_keys'' s) = Inl e \<longrightarrow>
      fst (get_all_private_keys http s) = [] \<and>
      (\<forall>http' s'. fst (http_get http' ''/tls/private_keys'' s') = Inr (Private_keys []) \<longrightarrow>
         fst (get_all_private_keys http' s') = fst (get_all_private_keys http s))) \<and>
   (fst (http_get http ''/tls/certificates'' s) = Inl e \<longrightarrow>
      fst (get_all_certificates http s) = [] \<and>
      (\<forall>http' s'. fst (http_get http' ''/tls/certificates'' s') = Inr (Certificates []) \<longrightarrow>
         fst (get_all_certificates http' s') = fst (get_all_certificates http s))) \<and>
   (fst (http_get http ''/tls/activations'' s) = Inl e \<longrightarrow>
      fst (get_activation http cert_id s) = [] \<and>
      (\<forall>http' s' ds.
         fst (http_get http' ''/tls/activations'' s') = Inr (Activations (map Some ds)) \<and>
         (\<forall>d\<in>set ds. Some (act_cert d) \<noteq> cert_id) \<longrightarrow>
         fst (get_activation http' cert_id s') = fst (get_activation http cert_id s)))"
  by (simp add: fst_get_all_private_keys fst_get_all_certificates fst_get_activation matching_none)

theorem failed_listing_reads_as_empty_witness:
  "fst (http_get (scripted down) ''/tls/private_keys'' fresh) = Inl RequestException \<and>
   fst (get_all_private_keys (scripted down) fresh) = [] \<and>
   fst (http_get (scripted empty_service) ''/tls/private_keys'' fresh) = Inr (Private_keys []) \<and>
   fst (get_all_private_keys (scripted empty_service) fresh) =
     fst (get_all_private_keys (scripted down) fresh) \<and>
   fst (http_get (scripted down) ''/tls/certificates'' fresh) = Inl RequestException \<and>
   fst (get_all_certificates (scripted down) fresh) = [] \<and>
   fst (http_get (scripted empty_service) ''/tls/certificates'' fresh) = Inr (Certificates []) \<and>
   fst (get_all_certificates (scripted empty_service) fresh) =
     fst (get_all_certificates (scripted down) fresh) \<and>
   fst (http_get (scripted down) ''/tls/activations'' fresh) = Inl RequestException \<and>
   fst (get_activation (scripted down) (Some ''c1'') fresh) = [] \<and>
   fst (http_get (scripted empty_service) ''/tls/activations'' fresh) =
     Inr (Activations (map Some [\<lparr>act_id = ''a1'', act_cert = ''c9''\<rparr>])) \<and>
   fst (get_activation (scripted empty_service) (Some ''c1'') fresh) =
     fst (get_activation (scripted down) (Some ''c1'') fresh)"
proof -
  have g: "fst (http_get (scripted down) p fresh) = Inl RequestException" for p
    by (simp add: fst_http_get_scripted down_def)
  have k: "fst (http_get (scripted empty_service) ''/tls/private_keys'' fresh) = Inr (Private_keys [])"
    by (simp add: fst_http_get_scripted empty_service_def)
  have c: "fst (http_get (scripted empty_service) ''/tls/certificates'' fresh) = Inr (Certificates [])"
    by (simp add: fst_http_get_scripted empty_service_def)
  have a: "fst (http_get (scripted empty_service) ''/tls/activations'' fresh) =
      Inr (Activations (map Some [\<lparr>act_id = ''a1'', act_cert = ''c9''\<rparr>]))"
    by (simp add: fst_http_get_scripted empty_service_def)
  have n: "\<forall>d\<in>set [\<lparr>act_id = ''a1'', act_cert = ''c9''\<rparr>]. Some (act_cert d) \<noteq> Some ''c1''"
    by simp
  note t = failed_listing_reads_as_empty
    [of "scripted down" fresh RequestException "Some ''c1''"]
  from t g k have 1: "fst (get_all_private_keys (scripted down) fresh) = [] \<and>
    fst (get_all_private_keys (scripted empty_service) fresh) =
     fst (get_all_private_keys (scripted down) fresh)" by blast
  from t g c have 2: "fst (get_all_certificates (scripted down) fresh) = [] \<and>
    fst (get_all_certificates (scripted empty_service) fresh) =
     fst (get_all_certificates (scripted down) fresh)" by blast
  from t g a n have 3: "fst (get_activation (scripted down) (Some ''c1'') fresh) = [] \<and>
    fst (get_activation (scripted empty_service) (Some ''c1'') fresh) =
     fst (get_activation (scripted down) (Some ''c1'') fresh)" by blast
  from 1 2 3 g k c a show ?thesis by blast
qed

subsection \<open>The lookup\<close>

lemma scan_certs_last:
  "scan_certs cname cert_keys c =
     (if filter (\<lambda>x. Some (crt_name x) = cname) cert_keys = [] then c
      else Some (crt_id (last (filter (\<lambda>x. Some (crt_name x) = cname) cert_keys))))"
  by (induction cert_keys arbitrary: c) auto

lemma scan_certs_twice [simp]:
  "scan_certs cname cert_keys (scan_certs cname cert_keys c) = scan_certs cname cert_keys c"
  by (simp add: scan_certs_last)

lemma scan_keys_eq:
  assumes "get_public_key_sha1 lib private_key = Inr d"
  shows "scan_keys lib private_key cname cert_keys priv_keys (p, c, f) =
     (if \<exists>k\<in>set priv_keys. Some (pk_name k) = cname \<and> pk_sha1 k = d
      then Inr (None,
                if pk_sha1 (hd (filter (\<lambda>k. Some (pk_name k) = cname) priv_keys)) = d then c
                else scan_certs cname cert_keys c, True)
      else if filter (\<lambda>k. Some (pk_name k) = cname) priv_keys = [] then Inr (p, c, f)
      else Inr (Some (pk_id (last (filter (\<lambda>k. Some (pk_name k) = cname) priv_keys))),
                scan_certs cname cert_keys c, True))"
proof (induction priv_keys arbitrary: p c f)
  case Nil
  show ?case by simp
next
  case (Cons each rest)
  show ?case
  proof (cases "Some (pk_name each) = cname")
    case False
    then show ?thesis by (auto simp: Cons.IH filter_empty_conv)
  next
    case True
    show ?thesis
    proof (cases "pk_sha1 each = d")
      case True
      with \<open>Some (pk_name each) = cname\<close> show ?thesis by (simp add: assms)
    next
      case False
      with True show ?thesis
        by (simp add: assms Cons.IH)
    qed
  qed
qed

text \<open>
  C7 (as amended).  When \<^verbatim>\<open>get_public_key_sha1\<close> returns the digest \<open>d\<close>, the lookup
  reads every private key of the name, not the first one only.  If some key of the name
  stores \<open>d\<close>, the loop stops there with no old key (the up-to-date path is taken).
  Otherwise the old key is the last key of the name in the listing, and the old
  certificate the last certificate of the name.
\<close>

theorem lookup_reads_every_named_entry:
  assumes "get_public_key_sha1 lib private_key = Inr d"
  shows "lookup lib private_key cname cert_keys priv_keys =
     (if \<exists>k\<in>set priv_keys. Some (pk_name k) = cname \<and> pk_sha1 k = d
      then Inr (None,
                if pk_sha1 (hd (filter (\<lambda>k. Some (pk_name k) = cname) priv_keys)) = d then None
                else scan_certs cname cert_keys None, True)
      else if filter (\<lambda>k. Some (pk_name k) = cname) priv_keys = [] then Inr (None, None, False)
      else Inr (Some (pk_id (last (filter (\<lambda>k. Some (pk_name k) = cname) priv_keys))),
                scan_certs cname cert_keys None, True)) \<and>
    scan_certs cname cert_keys None =
     (if filter (\<lambda>x. Some (crt_name x) = cname) cert_keys = [] then None
      else Some (crt_id (last (filter (\<lambda>x. Some (crt_name x) = cname) cert_keys))))"
  unfolding lookup_def by (simp only: scan_keys_eq [OF assms] scan_certs_last [of cname cert_keys None] simp_thms)

lemma example_digest:
  "get_public_key_sha1 example_lib key = Inr (''-----BEGIN PUBLIC KEY-----'' @ key)"
  by (simp add: get_public_key_sha1_def example_lib_def)

theorem lookup_reads_every_named_entry_witness:
  "get_public_key_sha1 example_lib ''new'' = Inr ''-----BEGIN PUBLIC KEY-----new'' \<and>
   lookup example_lib ''new'' (Some ''example.com'')
     [\<lparr>crt_id = ''c1'', crt_name = ''example.com''\<rparr>, \<lparr>crt_id = ''c2'', crt_name = ''example.com''\<rparr>]
     [\<lparr>pk_id = ''k1'', pk_name = ''example.com'', pk_sha1 = ''old''\<rparr>,
      \<lparr>pk_id = ''k3'', pk_name = ''example.com'', pk_sha1 = ''older''\<rparr>] =
   Inr (Some ''k3'', Some ''c2'', True)"
proof -
  have h: "get_public_key_sha1 example_lib ''new'' = Inr ''-----BEGIN PUBLIC KEY-----new''"
    by (simp add: example_digest)
  from lookup_reads_every_named_entry [OF h, of "Some ''example.com''"
     "[\<lparr>crt_id = ''c1'', crt_name = ''example.com''\<rparr>, \<lparr>crt_id = ''c2'', crt_name = ''example.com''\<rparr>]"
     "[\<lparr>pk_id = ''k1'', pk_name = ''example.com'', pk_sha1 = ''old''\<rparr>,
      \<lparr>pk_id = ''k3'', pk_name = ''example.com'', pk_sha1 = ''older''\<rparr>]"]
  show ?thesis using h by simp
qed

text \<open>
  The claim as stated fails.  With the keys \<open>k1\<close> (another fingerprint) and \<open>k2\<close> (the
  fingerprint of the new key) of the name, the first key of the name asks for an upload
  and the lookup answers up to date; with \<open>k1\<close> and \<open>k3\<close> the old key is \<open>k3\<close>; the old
  certificate is \<open>c2\<close>, the last of the name.
\<close>

theorem first_named_entry_counterexample:
  "lookup example_lib ''new'' (Some ''example.com'')
     [\<lparr>crt_id = ''c1'', crt_name = ''example.com''\<rparr>, \<lparr>crt_id = ''c2'', crt_name = ''example.com''\<rparr>]
     [\<lparr>pk_id = ''k1'', pk_name = ''example.com'', pk_sha1 = ''old''\<rparr>] =
     Inr (Some ''k1'', Some ''c2'', True) \<and>
   lookup example_lib ''new'' (Some ''example.com'')
     [\<lparr>crt_id = ''c1'', crt_name = ''example.com''\<rparr>, \<lparr>crt_id = ''c2'', crt_name = ''example.com''\<rparr>]
     [\<lparr>pk_id = ''k1'', pk_name = ''example.com'', pk_sha1 = ''old''\<rparr>,
      \<lparr>pk_id = ''k2'', pk_name = ''example.com'', pk_sha1 = ''-----BEGIN PUBLIC KEY-----new''\<rparr>] =
     Inr (None, Some ''c2'', True) \<and>
   lookup example_lib ''new'' (Some ''example.com'')
     [\<lparr>crt_id = ''c1'', crt_name = ''example.com''\<rparr>, \<lparr>crt_id = ''c2'', crt_name = ''example.com''\<rparr>]
     [\<lparr>pk_id = ''k1'', pk_name = ''example.com'', pk_sha1 = ''old''\<rparr>,
      \<lparr>pk_id = ''k3'', pk_name = ''example.com'', pk_sha1 = ''older''\<rparr>] =
     Inr (Some ''k3'', Some ''c2'', True)"
  by (simp add: lookup_def example_digest)

text \<open>
  C8 (as amended).  The fingerprint is the SHA-1 hex digest of the public key in PEM
  encoding (\<^verbatim>\<open>Encoding.PEM\<close>, SubjectPublicKeyInfo), and for a listing whose only entry
  has the name, the lookup finds a match iff the entry stores that digest.
\<close>

theorem fingerprint_is_digest_of_pem:
  assumes "load_pem_private_key lib private_key = Inr k"
  shows "get_public_key_sha1 lib private_key = Inr (sha1_hexdigest lib (public_bytes lib PEM k)) \<and>
         (\<forall>each. Some (pk_name each) = cname \<longrightarrow>
            (lookup lib private_key cname cert_keys [each] = Inr (None, None, True)) =
            (pk_sha1 each = sha1_hexdigest lib (public_bytes lib PEM k)))"
  using assms by (simp add: get_public_key_sha1_def lookup_def)

theorem fingerprint_is_digest_of_pem_witness:
  "load_pem_private_key example_lib ''new'' = Inr ''new'' \<and>
   get_public_key_sha1 example_lib ''new'' =
     Inr (sha1_hexdigest example_lib (public_bytes example_lib PEM ''new'')) \<and>
   (lookup example_lib ''new'' (Some ''example.com'') []
      [\<lparr>pk_id = ''k1'', pk_name = ''example.com'', pk_sha1 = ''old''\<rparr>] = Inr (None, None, True)) =
   (''old'' = sha1_hexdigest example_lib (public_bytes example_lib PEM ''new''))"
proof -
  have h: "load_pem_private_key example_lib ''new'' = Inr ''new''"
    by (simp add: example_lib_def)
  from fingerprint_is_digest_of_pem [OF h, of "Some ''example.com''" "[]"]
  show ?thesis using h by simp
qed

text \<open>
  The claim as stated fails where the digests of the two encodings differ: the fingerprint
  is not the digest of the DER encoding, and a remote key that stores the digest of the
  DER encoding is not matched.
\<close>

theorem fingerprint_of_der_counterexample:
  "get_public_key_sha1 example_lib ''new'' \<noteq>
     Inr (sha1_hexdigest example_lib (public_bytes example_lib DER ''new'')) \<and>
   lookup example_lib ''new'' (Some ''example.com'') []
     [\<lparr>pk_id = ''k1'', pk_name = ''example.com'',
       pk_sha1 = sha1_hexdigest example_lib (public_bytes example_lib DER ''new'')\<rparr>] =
     Inr (Some ''k1'', None, True)"
  by (simp add: lookup_def example_digest) (simp add: example_lib_def)

subsection \<open>One call after another\<close>

lemma get_all_private_keys_step:
  assumes "http (Get ''/tls/private_keys'') (world s) = (r, w)"
  shows "get_all_private_keys http s =
    (read_private_keys r, \<lparr>world = w, calls = calls s @ [(Get ''/tls/private_keys'', r)]\<rparr>)"
  using assms by (simp add: get_all_private_keys_def http_get_def send_def)

lemma get_all_certificates_step:
  assumes "http (Get ''/tls/certificates'') (world s) = (r, w)"
  shows "get_all_certificates http s =
    (read_certificates r, \<lparr>world = w, calls = calls s @ [(Get ''/tls/certificates'', r)]\<rparr>)"
  using assms by (simp add: get_all_certificates_def http_get_def send_def)

lemma post_private_key_step:
  assumes "http (Post ''/tls/private_keys'' (Tls_private_key key name)) (world s) = (r, w)"
  shows "post_private_key http key name s =
    (read_created r,
     \<lparr>world = w, calls = calls s @ [(Post ''/tls/private_keys'' (Tls_private_key key name), r)]\<rparr>)"
  using assms by (simp add: post_private_key_def http_post_def send_def)

lemma post_certificate_step:
  assumes "http (Post ''/tls/certificates'' (certificate_payload cert chain name)) (world s) = (r, w)"
  shows "post_certificate http cert chain name s =
    (read_created r,
     \<lparr>world = w,
      calls = calls s @ [(Post ''/tls/certificates'' (certificate_payload cert chain name), r)]\<rparr>)"
  using assms by (simp add: post_certificate_def http_post_def send_def)

lemma get_activation_step:
  assumes "http (Get ''/tls/activations'') (world s) = (r, w)"
  shows "get_activation http c s =
    (read_activation c r, \<lparr>world = w, calls = calls s @ [(Get ''/tls/activations'', r)]\<rparr>)"
  using assms by (simp add: get_activation_def http_get_def send_def)

lemma patch_activation_step:
  assumes "http (Patch (''/tls/activations/'' @ a) (Tls_activation n)) (world s) = (r, w)"
  shows "patch_activation http a n s =
    \<lparr>world = w, calls = calls s @ [(Patch (''/tls/activations/'' @ a) (Tls_activation n), r)]\<rparr>"
  using assms by (cases r) (simp_all add: patch_activation_def http_patch_def send_def)

lemma delete_certificate_step:
  assumes "http (Delete (''/tls/certificates/'' @ c)) (world s) = (r, w)"
  shows "delete_certificate http c s =
    \<lparr>world = w, calls = calls s @ [(Delete (''/tls/certificates/'' @ c), r)]\<rparr>"
  using assms by (cases r) (simp_all add: delete_certificate_def http_delete_def send_def)

lemma delete_private_key_step:
  assumes "http (Delete (''/tls/private_keys/'' @ k)) (world s) = (r, w)"
  shows "delete_private_key http k s =
    \<lparr>world = w, calls = calls s @ [(Delete (''/tls/private_keys/'' @ k), r)]\<rparr>"
  using assms by (cases r) (simp_all add: delete_private_key_def http_delete_def send_def)

subsection \<open>The requests of a run\<close>

lemma requests_patch_activation:
  "requests (patch_activation http a n s) =
     requests s @ [Patch (''/tls/activations/'' @ a) (Tls_activation n)]"
proof -
  obtain r w where "http (Patch (''/tls/activations/'' @ a) (Tls_activation n)) (world s) = (r, w)"
    by (cases "http (Patch (''/tls/activations/'' @ a) (Tls_activation n)) (world s)")
  from patch_activation_step [where http = http, OF this] show ?thesis by (simp add: requests_def)
qed

lemma requests_patch_each:
  "requests (patch_each http acts n s) =
     requests s @ map (\<lambda>a. Patch (''/tls/activations/'' @ a) (Tls_activation n)) acts"
  by (induction acts arbitrary: s) (simp_all add: requests_patch_activation)

lemma requests_delete_certificate:
  "requests (delete_certificate http c s) = requests s @ [Delete (''/tls/certificates/'' @ c)]"
proof -
  obtain r w where "http (Delete (''/tls/certificates/'' @ c)) (world s) = (r, w)"
    by (cases "http (Delete (''/tls/certificates/'' @ c)) (world s)")
  from delete_certificate_step [where http = http, OF this] show ?thesis by (simp add: requests_def)
qed

lemma requests_delete_private_key:
  "requests (delete_private_key http k s) = requests s @ [Delete (''/tls/private_keys/'' @ k)]"
proof -
  obtain r w where "http (Delete (''/tls/private_keys/'' @ k)) (world s) = (r, w)"
    by (cases "http (Delete (''/tls/private_keys/'' @ k)) (world s)")
  from delete_private_key_step [where http = http, OF this] show ?thesis by (simp add: requests_def)
qed

lemma requests_migrate:
  "requests (migrate http acts new_cert_id cert_id priv_id s) =
     requests s @
     (if acts \<noteq> [] \<and> truthy new_cert_id
      then map (\<lambda>a. Patch (''/tls/activations/'' @ a) (Tls_activation (the new_cert_id))) acts
      else []) @
     (if truthy cert_id then [Delete (''/tls/certificates/'' @ the cert_id)] else []) @
     (if truthy priv_id then [Delete (''/tls/private_keys/'' @ the priv_id)] else [])"
  by (simp add: migrate_def Let_def requests_patch_each requests_delete_certificate
      requests_delete_private_key)

lemma replace_steps:
  assumes "http (Post ''/tls/private_keys'' (Tls_private_key key cname)) (world s) = (r3, w3)"
      and "http (Post ''/tls/certificates'' (certificate_payload body chain cname)) w3 = (r4, w4)"
      and "http (Get ''/tls/activations'') w4 = (r5, w5)"
  shows "replace http body key chain cname (priv_id, cert_id, name_found) s =
     migrate http (read_activation cert_id r5) (read_created r4) cert_id priv_id
       \<lparr>world = w5,
        calls = calls s @
          [(Post ''/tls/private_keys'' (Tls_private_key key cname), r3),
           (Post ''/tls/certificates'' (certificate_payload body chain cname), r4),
           (Get ''/tls/activations'', r5)]\<rparr>"
proof -
  let ?c3 = "(Post ''/tls/private_keys'' (Tls_private_key key cname), r3)"
  let ?c4 = "(Post ''/tls/certificates'' (certificate_payload body chain cname), r4)"
  let ?s3 = "\<lparr>world = w3, calls = calls s @ [?c3]\<rparr>"
  let ?s4 = "\<lparr>world = w4, calls = calls s @ [?c3, ?c4]\<rparr>"
  have 3: "post_private_key http key cname s = (read_created r3, ?s3)"
    by (rule post_private_key_step [where http = http, OF assms(1)])
  have 4: "post_certificate http body chain cname ?s3 = (read_created r4, ?s4)"
    using post_certificate_step [where http = http and s = "?s3" and r = r4 and w = w4]
    by (simp add: assms(2))
  have 5: "get_activation http cert_id ?s4 =
      (read_activation cert_id r5,
       \<lparr>world = w5, calls = calls s @ [?c3, ?c4, (Get ''/tls/activations'', r5)]\<rparr>)"
    using get_activation_step [where http = http and s = "?s4" and r = r5 and w = w5]
    by (simp add: assms(3))
  show ?thesis by (simp add: replace_def 3 4 5)
qed

lemma upload_steps:
  assumes "parse_certificate lib body = Inr cert"
      and "http (Get ''/tls/private_keys'') (world s) = (r1, w1)"
      and "http (Get ''/tls/certificates'') w1 = (r2, w2)"
  shows "upload lib http body key chain s =
     (case lookup lib key (common_name cert) (read_certificates r2) (read_private_keys r1) of
        Inl e \<Rightarrow>
          (Inl e, \<lparr>world = w2,
             calls = calls s @ [(Get ''/tls/private_keys'', r1), (Get ''/tls/certificates'', r2)]\<rparr>)
      | Inr v \<Rightarrow>
          if upload_needed v
          then (Inr (), replace http body key chain (common_name cert) v
                  \<lparr>world = w2,
                   calls = calls s @ [(Get ''/tls/private_keys'', r1), (Get ''/tls/certificates'', r2)]\<rparr>)
          else (Inr (), \<lparr>world = w2,
             calls = calls s @ [(Get ''/tls/private_keys'', r1), (Get ''/tls/certificates'', r2)]\<rparr>))"
proof -
  let ?s1 = "\<lparr>world = w1, calls = calls s @ [(Get ''/tls/private_keys'', r1)]\<rparr>"
  have 1: "get_all_private_keys http s = (read_private_keys r1, ?s1)"
    by (rule get_all_private_keys_step [where http = http, OF assms(2)])
  have 2: "get_all_certificates http ?s1 =
     (read_certificates r2,
      \<lparr>world = w2, calls = calls s @ [(Get ''/tls/private_keys'', r1), (Get ''/tls/certificates'', r2)]\<rparr>)"
    using get_all_certificates_step [where http = http and s = "?s1" and r = r2 and w = w2]
    by (simp add: assms(3))
  show ?thesis by (simp add: upload_def assms(1) 1 2 Let_def split: sum.splits)
qed

lemma matching_None [simp]: "matching None ds = []"
  by (induction ds rule: appended.induct) simp_all

lemma lookup_no_keys [simp]: "lookup lib key cname cert_keys [] = Inr (None, None, False)"
  by (simp add: lookup_def)

subsection \<open>Evaluation of runs\<close>

lemmas run_defs =
  upload_def replace_def migrate_def lookup_def upload_needed_def truthy_def
  get_all_private_keys_def get_all_certificates_def get_activation_def
  post_private_key_def post_certificate_def certificate_payload_def
  patch_activation_def delete_certificate_def delete_private_key_def
  http_get_def http_post_def http_patch_def http_delete_def send_def
  common_name_def strip_def whitespace_def get_public_key_sha1_def

lemmas example_defs =
  example_lib_def example_fp_def stale_inventory_def current_inventory_def empty_inventory_def
  never_def only_def start_def final_def

lemmas fastly_defs =
  fastly_def fresh_id_def identifiers_def member_of_def unnamed_def not_found_def

subsection \<open>Runs that find no key of the name\<close>

text \<open>A run that finds no private key of the name makes five calls.\<close>

lemma upload_cold:
  assumes "parse_certificate lib body = Inr cert"
      and "http (Get ''/tls/private_keys'') (world s) = (r1, w1)"
      and "http (Get ''/tls/certificates'') w1 = (r2, w2)"
      and "lookup lib key (common_name cert) (read_certificates r2) (read_private_keys r1) =
             Inr (None, None, False)"
      and "http (Post ''/tls/private_keys'' (Tls_private_key key (common_name cert))) w2 = (r3, w3)"
      and "http (Post ''/tls/certificates'' (certificate_payload body chain (common_name cert))) w3 =
             (r4, w4)"
      and "http (Get ''/tls/activations'') w4 = (r5, w5)"
  shows "upload lib http body key chain s =
     (Inr (),
      \<lparr>world = w5,
       calls = calls s @
         [(Get ''/tls/private_keys'', r1), (Get ''/tls/certificates'', r2),
          (Post ''/tls/private_keys'' (Tls_private_key key (common_name cert)), r3),
          (Post ''/tls/certificates'' (certificate_payload body chain (common_name cert)), r4),
          (Get ''/tls/activations'', r5)]\<rparr>)"
proof -
  let ?s2 = "\<lparr>world = w2,
     calls = calls s @ [(Get ''/tls/private_keys'', r1), (Get ''/tls/certificates'', r2)]\<rparr>"
  have a: "read_activation None r5 = []"
    by (simp add: read_activation_def split: sum.splits body.splits)
  have "upload lib http body key chain s =
      (Inr (), replace http body key chain (common_name cert) (None, None, False) ?s2)"
    by (simp add: upload_steps [where http = http, OF assms(1) assms(2) assms(3)] assms(4)
        upload_needed_def)
  moreover have "replace http body key chain (common_name cert) (None, None, False) ?s2 =
      migrate http [] (read_created r4) None None
       \<lparr>world = w5,
        calls = calls s @
          [(Get ''/tls/private_keys'', r1), (Get ''/tls/certificates'', r2),
           (Post ''/tls/private_keys'' (Tls_private_key key (common_name cert)), r3),
           (Post ''/tls/certificates'' (certificate_payload body chain (common_name cert)), r4),
           (Get ''/tls/activations'', r5)]\<rparr>"
    using replace_steps [where http = http and s = "?s2"
          and ?r3.0 = r3 and ?w3.0 = w3 and ?r4.0 = r4 and ?w4.0 = w4 and ?r5.0 = r5 and ?w5.0 = w5
          and key = key and cname = "common_name cert" and body = body and chain = chain
          and priv_id = None and cert_id = None and name_found = False]
    by (simp add: assms(5,6,7) a)
  ultimately show ?thesis by (simp add: migrate_def truthy_def)
qed

text \<open>
  C4 (as amended).  When the listing of the private keys fails, \<^verbatim>\<open>upload\<close> does not
  abort: the failure reads as an empty listing, the run returns normally and issues the two
  creates, and no update and no delete.
\<close>

theorem failed_key_listing_uploads:
  assumes "parse_certificate lib body = Inr cert"
      and "fst (http (Get ''/tls/private_keys'') (world s)) = Inl e"
  shows "fst (upload lib http body key chain s) = Inr () \<and>
         requests (snd (upload lib http body key chain s)) =
           requests s @
           [Get ''/tls/private_keys'', Get ''/tls/certificates'',
            Post ''/tls/private_keys'' (Tls_private_key key (common_name cert)),
            Post ''/tls/certificates'' (certificate_payload body chain (common_name cert)),
            Get ''/tls/activations'']"
proof -
  obtain w1 where 1: "http (Get ''/tls/private_keys'') (world s) = (Inl e, w1)"
    using assms(2) by (cases "http (Get ''/tls/private_keys'') (world s)") simp
  obtain r2 w2 where 2: "http (Get ''/tls/certificates'') w1 = (r2, w2)"
    by (cases "http (Get ''/tls/certificates'') w1")
  obtain r3 w3 where 3:
    "http (Post ''/tls/private_keys'' (Tls_private_key key (common_name cert))) w2 = (r3, w3)"
    by (cases "http (Post ''/tls/private_keys'' (Tls_private_key key (common_name cert))) w2")
  obtain r4 w4 where 4:
    "http (Post ''/tls/certificates'' (certificate_payload body chain (common_name cert))) w3 = (r4, w4)"
    by (cases "http (Post ''/tls/certificates'' (certificate_payload body chain (common_name cert))) w3")
  obtain r5 w5 where 5: "http (Get ''/tls/activations'') w4 = (r5, w5)"
    by (cases "http (Get ''/tls/activations'') w4")
  have l: "lookup lib key (common_name cert) (read_certificates r2) (read_private_keys (Inl e)) =
      Inr (None, None, False)"
    by simp
  show ?thesis
    by (simp add: upload_cold [where http = http, OF assms(1) 1 2 l 3 4 5] requests_def)
qed

theorem failed_key_listing_uploads_witness:
  "parse_certificate example_lib ''example.com'' = Inr (Inr [''example.com'']) \<and>
   fst (fastly example_fp (only 0) (Get ''/tls/private_keys'') (world (start current_inventory))) =
     Inl RequestException \<and>
   fst (upload example_lib (fastly example_fp (only 0)) ''example.com'' ''new'' ''chain''
          (start current_inventory)) = Inr () \<and>
   requests (snd (upload example_lib (fastly example_fp (only 0)) ''example.com'' ''new'' ''chain''
          (start current_inventory))) =
     [Get ''/tls/private_keys'', Get ''/tls/certificates'',
      Post ''/tls/private_keys'' (Tls_private_key ''new'' (Some ''example.com'')),
      Post ''/tls/certificates'' (certificate_payload ''example.com'' ''chain'' (Some ''example.com'')),
      Get ''/tls/activations'']"
proof -
  have p: "parse_certificate example_lib ''example.com'' = Inr (Inr [''example.com''])"
    by (simp add: example_lib_def)
  have f: "fst (fastly example_fp (only 0) (Get ''/tls/private_keys'')
      (world (start current_inventory))) = Inl RequestException"
    by (simp add: fastly_def only_def start_def)
  have c: "common_name (Inr [''example.com'']) = Some ''example.com''"
    by (simp add: common_name_def strip_def whitespace_def)
  from failed_key_listing_uploads [where http = "fastly example_fp (only 0)", OF p f,
      of "''new''" "''chain''"]
  show ?thesis using p f by (simp add: c)
qed

text \<open>
  The claim as stated fails: the service holds the key with the fingerprint of the new key,
  the listing of the private keys fails, and the run creates a second key and a second
  certificate of the name.
\<close>

theorem failed_key_listing_counterexample:
  "upload example_lib (fastly example_fp (only 0)) ''example.com'' ''new'' ''chain''
     (start current_inventory) =
   (Inr (),
    \<lparr>world =
       (5, \<lparr>private_keys =
              [\<lparr>pk_id = ''k1'', pk_name = ''example.com'', pk_sha1 = example_fp ''new''\<rparr>,
               \<lparr>pk_id = ''xxx'', pk_name = ''example.com'', pk_sha1 = example_fp ''new''\<rparr>],
            certificates =
              [\<lparr>crt_id = ''c1'', crt_name = ''example.com''\<rparr>,
               \<lparr>crt_id = ''xxxx'', crt_name = ''example.com''\<rparr>],
            activations =
              [\<lparr>act_id = ''a1'', act_cert = ''c1''\<rparr>, \<lparr>act_id = ''a2'', act_cert = ''c1''\<rparr>]\<rparr>),
     calls =
       [(Get ''/tls/private_keys'', Inl RequestException),
        (Get ''/tls/certificates'',
         Inr (Certificates [Some \<lparr>crt_id = ''c1'', crt_name = ''example.com''\<rparr>])),
        (Post ''/tls/private_keys'' (Tls_private_key ''new'' (Some ''example.com'')),
         Inr (Created ''xxx'')),
        (Post ''/tls/certificates''
           (certificate_payload ''example.com'' ''chain'' (Some ''example.com'')),
         Inr (Created ''xxxx'')),
        (Get ''/tls/activations'',
         Inr (Activations
               [Some \<lparr>act_id = ''a1'', act_cert = ''c1''\<rparr>,
                Some \<lparr>act_id = ''a2'', act_cert = ''c1''\<rparr>]))]\<rparr>)"
  by (simp add: run_defs example_defs fastly_defs Let_def eval_nat_numeral)

subsection \<open>Runs that upload\<close>

lemma upload_replacing:
  assumes "parse_certificate lib body = Inr cert"
      and "http (Get ''/tls/private_keys'') (world s) = (r1, w1)"
      and "http (Get ''/tls/certificates'') w1 = (r2, w2)"
      and "lookup lib key (common_name cert) (read_certificates r2) (read_private_keys r1) =
             Inr (priv_id, cert_id, name_found)"
      and "upload_needed (priv_id, cert_id, name_found)"
      and "http (Post ''/tls/private_keys'' (Tls_private_key key (common_name cert))) w2 = (r3, w3)"
      and "http (Post ''/tls/certificates'' (certificate_payload body chain (common_name cert))) w3 =
             (r4, w4)"
      and "http (Get ''/tls/activations'') w4 = (r5, w5)"
  shows "upload lib http body key chain s =
     (Inr (),
      migrate http (read_activation cert_id r5) (read_created r4) cert_id priv_id
        \<lparr>world = w5,
         calls = calls s @
           [(Get ''/tls/private_keys'', r1), (Get ''/tls/certificates'', r2),
            (Post ''/tls/private_keys'' (Tls_private_key key (common_name cert)), r3),
            (Post ''/tls/certificates'' (certificate_payload body chain (common_name cert)), r4),
            (Get ''/tls/activations'', r5)]\<rparr>)"
proof -
  let ?s2 = "\<lparr>world = w2,
     calls = calls s @ [(Get ''/tls/private_keys'', r1), (Get ''/tls/certificates'', r2)]\<rparr>"
  have "upload lib http body key chain s =
      (Inr (), replace http body key chain (common_name cert) (priv_id, cert_id, name_found) ?s2)"
    by (simp add: upload_steps [where http = http, OF assms(1) assms(2) assms(3)] assms(4) assms(5))
  moreover have "replace http body key chain (common_name cert) (priv_id, cert_id, name_found) ?s2 =
      migrate http (read_activation cert_id r5) (read_created r4) cert_id priv_id
       \<lparr>world = w5,
        calls = calls s @
          [(Get ''/tls/private_keys'', r1), (Get ''/tls/certificates'', r2),
           (Post ''/tls/private_keys'' (Tls_private_key key (common_name cert)), r3),
           (Post ''/tls/certificates'' (certificate_payload body chain (common_name cert)), r4),
           (Get ''/tls/activations'', r5)]\<rparr>"
    using replace_steps [where http = http and s = "?s2"
          and ?r3.0 = r3 and ?w3.0 = w3 and ?r4.0 = r4 and ?w4.0 = w4 and ?r5.0 = r5 and ?w5.0 = w5
          and key = key and cname = "common_name cert" and body = body and chain = chain
          and priv_id = priv_id and cert_id = cert_id and name_found = name_found]
    by (simp add: assms(6,7,8))
  ultimately show ?thesis by simp
qed

text \<open>
  C9.  In a run that has an old key \<open>k\<close> and an old certificate \<open>c\<close> and has created the
  certificate \<open>n\<close>, whatever the remote side answers to the updates (\<open>http\<close> is arbitrary, so
  each update may fail), the run issues one update for each activation found, in order, and
  then the delete of the old certificate and the delete of the old key.
\<close>

theorem activation_updates_are_independent:
  assumes "parse_certificate lib body = Inr cert"
      and "http (Get ''/tls/private_keys'') (world s) = (r1, w1)"
      and "http (Get ''/tls/certificates'') w1 = (r2, w2)"
      and "lookup lib key (common_name cert) (read_certificates r2) (read_private_keys r1) =
             Inr (Some k, Some c, name_found)"
      and "k \<noteq> []" and "c \<noteq> []"
      and "http (Post ''/tls/private_keys'' (Tls_private_key key (common_name cert))) w2 = (r3, w3)"
      and "http (Post ''/tls/certificates'' (certificate_payload body chain (common_name cert))) w3 =
             (Inr (Created n), w4)"
      and "n \<noteq> []"
      and "http (Get ''/tls/activations'') w4 = (r5, w5)"
  shows "requests (snd (upload lib http body key chain s)) =
     requests s @
     [Get ''/tls/private_keys'', Get ''/tls/certificates'',
      Post ''/tls/private_keys'' (Tls_private_key key (common_name cert)),
      Post ''/tls/certificates'' (certificate_payload body chain (common_name cert)),
      Get ''/tls/activations''] @
     map (\<lambda>a. Patch (''/tls/activations/'' @ a) (Tls_activation n)) (read_activation (Some c) r5) @
     [Delete (''/tls/certificates/'' @ c), Delete (''/tls/private_keys/'' @ k)]"
proof -
  have u: "upload_needed (Some k, Some c, name_found)"
    using assms(5) by (simp add: upload_needed_def truthy_def)
  show ?thesis
    using assms(5,6,9)
    by (simp add: upload_replacing [where http = http, OF assms(1,2,3,4) u assms(7,8,10)]
        requests_migrate truthy_def)
      (simp add: requests_def)
qed

theorem activation_updates_are_independent_witness:
  "lookup example_lib ''new'' (Some ''example.com'')
     [\<lparr>crt_id = ''c1'', crt_name = ''example.com''\<rparr>]
     [\<lparr>pk_id = ''k1'', pk_name = ''example.com'', pk_sha1 = ''old''\<rparr>] =
     Inr (Some ''k1'', Some ''c1'', True) \<and>
   fst (fastly example_fp (only 5)
          (Patch ''/tls/activations/a1'' (Tls_activation ''xxxx''))
          (5, stale_inventory
             \<lparr>private_keys := private_keys stale_inventory @
                [\<lparr>pk_id = ''xxx'', pk_name = ''example.com'', pk_sha1 = example_fp ''new''\<rparr>],
              certificates := certificates stale_inventory @
                [\<lparr>crt_id = ''xxxx'', crt_name = ''example.com''\<rparr>]\<rparr>)) = Inl RequestException \<and>
   requests (snd (upload example_lib (fastly example_fp (only 5)) ''example.com'' ''new'' ''chain''
       (start stale_inventory))) =
     [Get ''/tls/private_keys'', Get ''/tls/certificates'',
      Post ''/tls/private_keys'' (Tls_private_key ''new'' (Some ''example.com'')),
      Post ''/tls/certificates'' (certificate_payload ''example.com'' ''chain'' (Some ''example.com'')),
      Get ''/tls/activations'',
      Patch ''/tls/activations/a1'' (Tls_activation ''xxxx''),
      Patch ''/tls/activations/a2'' (Tls_activation ''xxxx''),
      Delete ''/tls/certificates/c1'', Delete ''/tls/private_keys/k1'']"
proof -
  let ?st3 = "stale_inventory
     \<lparr>private_keys := private_keys stale_inventory @
        [\<lparr>pk_id = ''xxx'', pk_name = ''example.com'', pk_sha1 = example_fp ''new''\<rparr>]\<rparr>"
  let ?st4 = "stale_inventory
     \<lparr>private_keys := private_keys stale_inventory @
        [\<lparr>pk_id = ''xxx'', pk_name = ''example.com'', pk_sha1 = example_fp ''new''\<rparr>],
      certificates := certificates stale_inventory @
        [\<lparr>crt_id = ''xxxx'', crt_name = ''example.com''\<rparr>]\<rparr>"
  have p: "parse_certificate example_lib ''example.com'' = Inr (Inr [''example.com''])"
    by (simp add: example_lib_def)
  have c: "common_name (Inr [''example.com'']) = Some ''example.com''"
    by (simp add: common_name_def strip_def whitespace_def)
  have 1: "fastly example_fp (only 5) (Get ''/tls/private_keys'') (world (start stale_inventory)) =
      (Inr (Private_keys (map Some (private_keys stale_inventory))), (1, stale_inventory))"
    by (simp add: fastly_def only_def start_def)
  have 2: "fastly example_fp (only 5) (Get ''/tls/certificates'') (1, stale_inventory) =
      (Inr (Certificates (map Some (certificates stale_inventory))), (2, stale_inventory))"
    by (simp add: fastly_def only_def)
  have l: "lookup example_lib ''new'' (common_name (Inr [''example.com'']))
      (read_certificates (Inr (Certificates (map Some (certificates stale_inventory)))))
      (read_private_keys (Inr (Private_keys (map Some (private_keys stale_inventory))))) =
      Inr (Some ''k1'', Some ''c1'', True)"
    by (simp add: c lookup_def get_public_key_sha1_def example_lib_def stale_inventory_def)
  have 3: "fastly example_fp (only 5)
      (Post ''/tls/private_keys'' (Tls_private_key ''new'' (common_name (Inr [''example.com'']))))
      (2, stale_inventory) = (Inr (Created ''xxx''), (3, ?st3))"
    by (simp add: c fastly_defs only_def stale_inventory_def eval_nat_numeral)
  have 4: "fastly example_fp (only 5)
      (Post ''/tls/certificates''
         (certificate_payload ''example.com'' ''chain'' (common_name (Inr [''example.com'']))))
      (3, ?st3) = (Inr (Created ''xxxx''), (4, ?st4))"
    by (simp add: c fastly_defs only_def stale_inventory_def certificate_payload_def truthy_def
        eval_nat_numeral)
  have 5: "fastly example_fp (only 5) (Get ''/tls/activations'') (4, ?st4) =
      (Inr (Activations (map Some (activations stale_inventory))), (5, ?st4))"
    by (simp add: fastly_def only_def)
  have f: "fst (fastly example_fp (only 5)
          (Patch ''/tls/activations/a1'' (Tls_activation ''xxxx'')) (5, ?st4)) = Inl RequestException"
    by (simp add: fastly_def only_def)
  have l': "lookup example_lib ''new'' (Some ''example.com'')
     [\<lparr>crt_id = ''c1'', crt_name = ''example.com''\<rparr>]
     [\<lparr>pk_id = ''k1'', pk_name = ''example.com'', pk_sha1 = ''old''\<rparr>] =
     Inr (Some ''k1'', Some ''c1'', True)"
    using l by (simp add: c stale_inventory_def)
  from activation_updates_are_independent
    [where http = "fastly example_fp (only 5)" and chain = "''chain''", OF p 1 2 l _ _ 3 4 _ 5]
  have "requests (snd (upload example_lib (fastly example_fp (only 5)) ''example.com'' ''new'' ''chain''
       (start stale_inventory))) =
     requests (start stale_inventory) @
     [Get ''/tls/private_keys'', Get ''/tls/certificates'',
      Post ''/tls/private_keys'' (Tls_private_key ''new'' (common_name (Inr [''example.com'']))),
      Post ''/tls/certificates''
        (certificate_payload ''example.com'' ''chain'' (common_name (Inr [''example.com'']))),
      Get ''/tls/activations''] @
     map (\<lambda>a. Patch (''/tls/activations/'' @ a) (Tls_activation ''xxxx''))
       (read_activation (Some ''c1'') (Inr (Activations (map Some (activations stale_inventory))))) @
     [Delete (''/tls/certificates/'' @ ''c1''), Delete (''/tls/private_keys/'' @ ''k1'')]"
    by simp
  then show ?thesis using l' f by (simp add: c stale_inventory_def)
qed

text \<open>
  C1 (as amended).  In a run that uploads, a create that fails is caught in its helper:
  \<^verbatim>\<open>upload\<close> returns normally and reports no failure, the create of the certificate and
  the listing of the activations are still issued, and after a failed create of the
  certificate no activation is updated (every later call is a delete).
\<close>

theorem failed_create_is_not_reported:
  assumes "parse_certificate lib body = Inr cert"
      and "http (Get ''/tls/private_keys'') (world s) = (r1, w1)"
      and "http (Get ''/tls/certificates'') w1 = (r2, w2)"
      and "lookup lib key (common_name cert) (read_certificates r2) (read_private_keys r1) =
             Inr (priv_id, cert_id, name_found)"
      and "upload_needed (priv_id, cert_id, name_found)"
      and "http (Post ''/tls/private_keys'' (Tls_private_key key (common_name cert))) w2 = (r3, w3)"
      and "http (Post ''/tls/certificates'' (certificate_payload body chain (common_name cert))) w3 =
             (r4, w4)"
      and "r3 = Inl e \<or> r4 = Inl e"
  shows "fst (upload lib http body key chain s) = Inr () \<and>
     (\<exists>rest.
        requests (snd (upload lib http body key chain s)) =
          requests s @
          [Get ''/tls/private_keys'', Get ''/tls/certificates'',
           Post ''/tls/private_keys'' (Tls_private_key key (common_name cert)),
           Post ''/tls/certificates'' (certificate_payload body chain (common_name cert)),
           Get ''/tls/activations''] @ rest \<and>
        (r4 = Inl e \<longrightarrow> (\<forall>rq\<in>set rest. \<exists>path. rq = Delete path)))"
proof -
  obtain r5 w5 where 5: "http (Get ''/tls/activations'') w4 = (r5, w5)"
    by (cases "http (Get ''/tls/activations'') w4")
  note u = upload_replacing [where http = http, OF assms(1,2,3,4,5,6,7) 5]
  let ?rest = "(if read_activation cert_id r5 \<noteq> [] \<and> truthy (read_created r4)
      then map (\<lambda>a. Patch (''/tls/activations/'' @ a) (Tls_activation (the (read_created r4))))
             (read_activation cert_id r5)
      else []) @
     (if truthy cert_id then [Delete (''/tls/certificates/'' @ the cert_id)] else []) @
     (if truthy priv_id then [Delete (''/tls/private_keys/'' @ the priv_id)] else [])"
  have "requests (snd (upload lib http body key chain s)) =
          requests s @
          [Get ''/tls/private_keys'', Get ''/tls/certificates'',
           Post ''/tls/private_keys'' (Tls_private_key key (common_name cert)),
           Post ''/tls/certificates'' (certificate_payload body chain (common_name cert)),
           Get ''/tls/activations''] @ ?rest"
    by (simp add: u requests_migrate) (simp add: requests_def)
  moreover have "r4 = Inl e \<longrightarrow> (\<forall>rq\<in>set ?rest. \<exists>path. rq = Delete path)"
    by (auto simp: truthy_def)
  ultimately show ?thesis by (simp add: u)
qed

theorem failed_create_is_not_reported_witness:
  "upload_needed (Some ''k1'', Some ''c1'', True) \<and>
   fst (fastly example_fp (only 3)
     (Post ''/tls/certificates'' (certificate_payload ''example.com'' ''chain'' (Some ''example.com'')))
     (3, stale_inventory
        \<lparr>private_keys := private_keys stale_inventory @
           [\<lparr>pk_id = ''xxx'', pk_name = ''example.com'', pk_sha1 = example_fp ''new''\<rparr>]\<rparr>)) =
     Inl RequestException \<and>
   fst (upload example_lib (fastly example_fp (only 3)) ''example.com'' ''new'' ''chain''
       (start stale_inventory)) = Inr () \<and>
   (\<exists>rest.
      requests (snd (upload example_lib (fastly example_fp (only 3)) ''example.com'' ''new'' ''chain''
         (start stale_inventory))) =
        [Get ''/tls/private_keys'', Get ''/tls/certificates'',
         Post ''/tls/private_keys'' (Tls_private_key ''new'' (Some ''example.com'')),
         Post ''/tls/certificates''
           (certificate_payload ''example.com'' ''chain'' (Some ''example.com'')),
         Get ''/tls/activations''] @ rest \<and>
      list_all (\<lambda>rq. \<exists>path. rq = Delete path) rest)"
proof -
  let ?st3 = "stale_inventory
     \<lparr>private_keys := private_keys stale_inventory @
        [\<lparr>pk_id = ''xxx'', pk_name = ''example.com'', pk_sha1 = example_fp ''new''\<rparr>]\<rparr>"
  have p: "parse_certificate example_lib ''example.com'' = Inr (Inr [''example.com''])"
    by (simp add: example_lib_def)
  have c: "common_name (Inr [''example.com'']) = Some ''example.com''"
    by (simp add: common_name_def strip_def whitespace_def)
  have 1: "fastly example_fp (only 3) (Get ''/tls/private_keys'') (world (start stale_inventory)) =
      (Inr (Private_keys (map Some (private_keys stale_inventory))), (1, stale_inventory))"
    by (simp add: fastly_def only_def start_def)
  have 2: "fastly example_fp (only 3) (Get ''/tls/certificates'') (1, stale_inventory) =
      (Inr (Certificates (map Some (certificates stale_inventory))), (2, stale_inventory))"
    by (simp add: fastly_def only_def)
  have l: "lookup example_lib ''new'' (common_name (Inr [''example.com'']))
      (read_certificates (Inr (Certificates (map Some (certificates stale_inventory)))))
      (read_private_keys (Inr (Private_keys (map Some (private_keys stale_inventory))))) =
      Inr (Some ''k1'', Some ''c1'', True)"
    by (simp add: c lookup_def get_public_key_sha1_def example_lib_def stale_inventory_def)
  have n: "upload_needed (Some ''k1'', Some ''c1'', True)"
    by (simp add: upload_needed_def truthy_def)
  have 3: "fastly example_fp (only 3)
      (Post ''/tls/private_keys'' (Tls_private_key ''new'' (common_name (Inr [''example.com'']))))
      (2, stale_inventory) = (Inr (Created ''xxx''), (3, ?st3))"
    by (simp add: c fastly_defs only_def stale_inventory_def eval_nat_numeral)
  have 4: "fastly example_fp (only 3)
      (Post ''/tls/certificates''
         (certificate_payload ''example.com'' ''chain'' (common_name (Inr [''example.com'']))))
      (3, ?st3) = (Inl RequestException, (4, ?st3))"
    by (simp add: fastly_def only_def)
  have f: "fst (fastly example_fp (only 3)
     (Post ''/tls/certificates'' (certificate_payload ''example.com'' ''chain'' (Some ''example.com'')))
     (3, ?st3)) = Inl RequestException"
    using 4 by (simp add: c)
  have d: "Inr (Created ''xxx'') = Inl RequestException \<or>
      (Inl RequestException :: response) = Inl RequestException"
    by simp
  from failed_create_is_not_reported
    [where http = "fastly example_fp (only 3)" and chain = "''chain''", OF p 1 2 l n 3 4 d]
  show ?thesis using n f by (simp add: c Ball_set [symmetric])
qed

text \<open>
  The claim as stated fails.  The service holds an old key, an old certificate and two
  activations.  When the create of the key fails (request 2), the run goes on, re-points
  the activations and deletes the old certificate and the old key: no key is left.  When
  the create of the certificate fails (request 3), the run deletes the old certificate and
  the old key all the same.  Both runs return normally.
\<close>

theorem failed_create_counterexample:
  "upload example_lib (fastly example_fp (only 2)) ''example.com'' ''new'' ''chain''
     (start stale_inventory) =
   (Inr (),
    \<lparr>world =
       (9, \<lparr>private_keys = [],
            certificates = [\<lparr>crt_id = ''xxx'', crt_name = ''example.com''\<rparr>],
            activations =
              [\<lparr>act_id = ''a1'', act_cert = ''xxx''\<rparr>, \<lparr>act_id = ''a2'', act_cert = ''xxx''\<rparr>]\<rparr>),
     calls =
       [(Get ''/tls/private_keys'',
         Inr (Private_keys [Some \<lparr>pk_id = ''k1'', pk_name = ''example.com'', pk_sha1 = ''old''\<rparr>])),
        (Get ''/tls/certificates'',
         Inr (Certificates [Some \<lparr>crt_id = ''c1'', crt_name = ''example.com''\<rparr>])),
        (Post ''/tls/private_keys'' (Tls_private_key ''new'' (Some ''example.com'')),
         Inl RequestException),
        (Post ''/tls/certificates''
           (certificate_payload ''example.com'' ''chain'' (Some ''example.com'')),
         Inr (Created ''xxx'')),
        (Get ''/tls/activations'',
         Inr (Activations
               [Some \<lparr>act_id = ''a1'', act_cert = ''c1''\<rparr>,
                Some \<lparr>act_id = ''a2'', act_cert = ''c1''\<rparr>])),
        (Patch ''/tls/activations/a1'' (Tls_activation ''xxx''), Inr Other),
        (Patch ''/tls/activations/a2'' (Tls_activation ''xxx''), Inr Other),
        (Delete ''/tls/certificates/c1'', Inr Other),
        (Delete ''/tls/private_keys/k1'', Inr Other)]\<rparr>) \<and>
   upload example_lib (fastly example_fp (only 3)) ''example.com'' ''new'' ''chain''
     (start stale_inventory) =
   (Inr (),
    \<lparr>world =
       (7, \<lparr>private_keys =
              [\<lparr>pk_id = ''xxx'', pk_name = ''example.com'', pk_sha1 = example_fp ''new''\<rparr>],
            certificates = [],
            activations =
              [\<lparr>act_id = ''a1'', act_cert = ''c1''\<rparr>, \<lparr>act_id = ''a2'', act_cert = ''c1''\<rparr>]\<rparr>),
     calls =
       [(Get ''/tls/private_keys'',
         Inr (Private_keys [Some \<lparr>pk_id = ''k1'', pk_name = ''example.com'', pk_sha1 = ''old''\<rparr>])),
        (Get ''/tls/certificates'',
         Inr (Certificates [Some \<lparr>crt_id = ''c1'', crt_name = ''example.com''\<rparr>])),
        (Post ''/tls/private_keys'' (Tls_private_key ''new'' (Some ''example.com'')),
         Inr (Created ''xxx'')),
        (Post ''/tls/certificates''
           (certificate_payload ''example.com'' ''chain'' (Some ''example.com'')),
         Inl RequestException),
        (Get ''/tls/activations'',
         Inr (Activations
               [Some \<lparr>act_id = ''a1'', act_cert = ''c1''\<rparr>,
                Some \<lparr>act_id = ''a2'', act_cert = ''c1''\<rparr>])),
        (Delete ''/tls/certificates/c1'', Inr Other),
        (Delete ''/tls/private_keys/k1'', Inr Other)]\<rparr>)"
  by (simp add: run_defs example_defs fastly_defs Let_def eval_nat_numeral)

subsection \<open>The model of the service\<close>

lemma length_le_foldr_max: "x \<in> set xs \<Longrightarrow> length x \<le> foldr max (map length xs) 0"
  by (induction xs) auto

lemma fresh_id_not_empty [simp]: "fresh_id st \<noteq> []"
  by (simp add: fresh_id_def)

lemma fresh_id_new: "i \<in> set (identifiers st) \<Longrightarrow> fresh_id st \<noteq> i"
proof
  assume i: "i \<in> set (identifiers st)" and e: "fresh_id st = i"
  have "length (fresh_id st) = Suc (foldr max (map length (identifiers st)) 0)"
    by (simp add: fresh_id_def)
  with length_le_foldr_max [OF i] e show False by simp
qed

lemma member_of_simps [simp]:
  "member_of ''/tls/certificates'' (''/tls/certificates/'' @ x) = Some x"
  "member_of ''/tls/certificates'' (''/tls/private_keys/'' @ x) = None"
  "member_of ''/tls/private_keys'' (''/tls/private_keys/'' @ x) = Some x"
  "member_of ''/tls/activations'' (''/tls/activations/'' @ x) = Some x"
  by (simp_all add: member_of_def)

lemma start_simps [simp]: "calls (start st) = []" "world (start st) = (0, st)"
  by (simp_all add: start_def)

text \<open>
  C5.  Against the empty inventory a run issues, whichever requests fail, exactly the two
  listings, one create of a private key, one create of a certificate and the listing of the
  activations: no update and no delete.  When no request fails, the inventory then holds
  exactly one private key and one certificate.
\<close>

theorem cold_start:
  assumes "parse_certificate lib body = Inr cert"
  shows "requests (snd (upload lib (fastly fp fails) body key chain (start empty_inventory))) =
     [Get ''/tls/private_keys'', Get ''/tls/certificates'',
      Post ''/tls/private_keys'' (Tls_private_key key (common_name cert)),
      Post ''/tls/certificates'' (certificate_payload body chain (common_name cert)),
      Get ''/tls/activations''] \<and>
     ((\<forall>n. \<not> fails n) \<longrightarrow>
      final (snd (upload lib (fastly fp fails) body key chain (start empty_inventory))) =
        \<lparr>private_keys =
           [\<lparr>pk_id = ''x'', pk_name = unnamed (common_name cert), pk_sha1 = fp key\<rparr>],
         certificates =
           [\<lparr>crt_id = ''xx'',
             crt_name = unnamed (if truthy (common_name cert) then common_name cert else None)\<rparr>],
         activations = []\<rparr>)"
proof -
  let ?h = "fastly fp fails"
  let ?kp = "Tls_private_key key (common_name cert)"
  let ?cp = "certificate_payload body chain (common_name cert)"
  obtain r1 where 1: "?h (Get ''/tls/private_keys'') (world (start empty_inventory)) =
      (r1, (1, empty_inventory))" and k: "read_private_keys r1 = []"
    by (cases "fails 0") (simp_all add: fastly_def empty_inventory_def)
  obtain r2 where 2: "?h (Get ''/tls/certificates'') (1, empty_inventory) = (r2, (2, empty_inventory))"
    by (cases "fails 1") (simp_all add: fastly_def)
  have l: "lookup lib key (common_name cert) (read_certificates r2) (read_private_keys r1) =
      Inr (None, None, False)"
    by (simp add: k)
  obtain r3 w3 where 3: "?h (Post ''/tls/private_keys'' ?kp) (2, empty_inventory) = (r3, w3)"
    by (cases "?h (Post ''/tls/private_keys'' ?kp) (2, empty_inventory)")
  obtain r4 w4 where 4: "?h (Post ''/tls/certificates'' ?cp) w3 = (r4, w4)"
    by (cases "?h (Post ''/tls/certificates'' ?cp) w3")
  obtain r5 w5 where 5: "?h (Get ''/tls/activations'') w4 = (r5, w5)"
    by (cases "?h (Get ''/tls/activations'') w4")
  note u = upload_cold [where http = "?h", OF assms 1 2 l 3 4 5]
  have a: "requests (snd (upload lib ?h body key chain (start empty_inventory))) =
     [Get ''/tls/private_keys'', Get ''/tls/certificates'', Post ''/tls/private_keys'' ?kp,
      Post ''/tls/certificates'' ?cp, Get ''/tls/activations'']"
    by (simp add: u requests_def)
  have b: "final (snd (upload lib ?h body key chain (start empty_inventory))) =
        \<lparr>private_keys =
           [\<lparr>pk_id = ''x'', pk_name = unnamed (common_name cert), pk_sha1 = fp key\<rparr>],
         certificates =
           [\<lparr>crt_id = ''xx'',
             crt_name = unnamed (if truthy (common_name cert) then common_name cert else None)\<rparr>],
         activations = []\<rparr>" if nf: "\<forall>n. \<not> fails n"
  proof -
    have 3: "w3 = (3, empty_inventory
        \<lparr>private_keys := [\<lparr>pk_id = ''x'', pk_name = unnamed (common_name cert), pk_sha1 = fp key\<rparr>]\<rparr>)"
      using 3 nf by (simp add: fastly_def fresh_id_def identifiers_def empty_inventory_def)
    have 4: "w4 = (4, \<lparr>private_keys =
           [\<lparr>pk_id = ''x'', pk_name = unnamed (common_name cert), pk_sha1 = fp key\<rparr>],
         certificates =
           [\<lparr>crt_id = ''xx'',
             crt_name = unnamed (if truthy (common_name cert) then common_name cert else None)\<rparr>],
         activations = []\<rparr>)"
      using 4 nf
      by (simp add: 3 fastly_def fresh_id_def identifiers_def empty_inventory_def
          certificate_payload_def)
    have 5: "w5 = (5, snd w4)"
      using 5 nf by (simp add: 4 fastly_def)
    show ?thesis by (simp add: u final_def 5 4)
  qed
  from a b show ?thesis by blast
qed

theorem cold_start_witness:
  "parse_certificate example_lib ''example.com'' = Inr (Inr [''example.com'']) \<and>
   requests (snd (upload example_lib (fastly example_fp never) ''example.com'' ''new'' ''chain''
     (start empty_inventory))) =
     [Get ''/tls/private_keys'', Get ''/tls/certificates'',
      Post ''/tls/private_keys'' (Tls_private_key ''new'' (Some ''example.com'')),
      Post ''/tls/certificates'' (certificate_payload ''example.com'' ''chain'' (Some ''example.com'')),
      Get ''/tls/activations''] \<and>
   final (snd (upload example_lib (fastly example_fp never) ''example.com'' ''new'' ''chain''
     (start empty_inventory))) =
     \<lparr>private_keys = [\<lparr>pk_id = ''x'', pk_name = ''example.com'', pk_sha1 = example_fp ''new''\<rparr>],
      certificates = [\<lparr>crt_id = ''xx'', crt_name = ''example.com''\<rparr>],
      activations = []\<rparr>"
proof -
  have p: "parse_certificate example_lib ''example.com'' = Inr (Inr [''example.com''])"
    by (simp add: example_lib_def)
  have c: "common_name (Inr [''example.com'']) = Some ''example.com''"
    by (simp add: common_name_def strip_def whitespace_def)
  have n: "\<forall>n. \<not> never n"
    by (simp add: never_def)
  from cold_start [OF p, of example_fp never "''new''" "''chain''"] n
  show ?thesis using p by (simp add: c unnamed_def truthy_def)
qed

text \<open>
  C6.  The service holds one private key of the name with another fingerprint, one
  certificate of the name and two activations of that certificate, and no request fails.
  Then the run creates a key, creates a certificate, re-points both activations to the new
  certificate, deletes the old certificate and deletes the old key, in this order, and the
  inventory holds the new key, the new certificate and the two re-pointed activations.
  The identifiers of the old key and the old certificate are not empty.
\<close>

theorem rotation:
  assumes "parse_certificate lib body = Inr cert" and "common_name cert = Some nm"
      and "get_public_key_sha1 lib key = Inr d"
      and "pk_name k = nm" and "pk_sha1 k \<noteq> d" and "pk_id k \<noteq> []"
      and "crt_name c = nm" and "crt_id c \<noteq> []"
      and "act_cert a1 = crt_id c" and "act_cert a2 = crt_id c"
      and "\<forall>n. \<not> fails n"
  shows "\<exists>new_key new_cert.
     new_key \<noteq> pk_id k \<and> new_cert \<noteq> crt_id c \<and>
     fst (upload lib (fastly fp fails) body key chain
            (start \<lparr>private_keys = [k], certificates = [c], activations = [a1, a2]\<rparr>)) = Inr () \<and>
     requests (snd (upload lib (fastly fp fails) body key chain
            (start \<lparr>private_keys = [k], certificates = [c], activations = [a1, a2]\<rparr>))) =
       [Get ''/tls/private_keys'', Get ''/tls/certificates'',
        Post ''/tls/private_keys'' (Tls_private_key key (Some nm)),
        Post ''/tls/certificates'' (certificate_payload body chain (Some nm)),
        Get ''/tls/activations'',
        Patch (''/tls/activations/'' @ act_id a1) (Tls_activation new_cert),
        Patch (''/tls/activations/'' @ act_id a2) (Tls_activation new_cert),
        Delete (''/tls/certificates/'' @ crt_id c),
        Delete (''/tls/private_keys/'' @ pk_id k)] \<and>
     final (snd (upload lib (fastly fp fails) body key chain
            (start \<lparr>private_keys = [k], certificates = [c], activations = [a1, a2]\<rparr>))) =
       \<lparr>private_keys = [\<lparr>pk_id = new_key, pk_name = nm, pk_sha1 = fp key\<rparr>],
        certificates = [\<lparr>crt_id = new_cert, crt_name = nm\<rparr>],
        activations = [a1\<lparr>act_cert := new_cert\<rparr>, a2\<lparr>act_cert := new_cert\<rparr>]\<rparr>"
proof -
  let ?h = "fastly fp fails"
  let ?st = "\<lparr>private_keys = [k], certificates = [c], activations = [a1, a2]\<rparr>"
  let ?i1 = "fresh_id ?st"
  let ?nk = "\<lparr>pk_id = ?i1, pk_name = nm, pk_sha1 = fp key\<rparr>"
  let ?st3 = "\<lparr>private_keys = [k, ?nk], certificates = [c], activations = [a1, a2]\<rparr>"
  let ?i2 = "fresh_id ?st3"
  let ?nc = "\<lparr>crt_id = ?i2, crt_name = nm\<rparr>"
  let ?st4 = "\<lparr>private_keys = [k, ?nk], certificates = [c, ?nc], activations = [a1, a2]\<rparr>"
  note nf = assms(11)
  have i1: "?i1 \<noteq> pk_id k"
    by (rule fresh_id_new) (simp add: identifiers_def)
  have i2: "?i2 \<noteq> crt_id c"
    by (rule fresh_id_new) (simp add: identifiers_def)
  have 1: "?h (Get ''/tls/private_keys'') (world (start ?st)) =
      (Inr (Private_keys [Some k]), (1, ?st))"
    using nf by (simp add: fastly_def)
  have 2: "?h (Get ''/tls/certificates'') (1, ?st) = (Inr (Certificates [Some c]), (2, ?st))"
    using nf by (simp add: fastly_def)
  have l: "lookup lib key (common_name cert) (read_certificates (Inr (Certificates [Some c])))
      (read_private_keys (Inr (Private_keys [Some k]))) = Inr (Some (pk_id k), Some (crt_id c), True)"
    using assms(2-7) by (simp add: lookup_def)
  have n: "upload_needed (Some (pk_id k), Some (crt_id c), True)"
    using assms(6) by (simp add: upload_needed_def truthy_def)
  have 3: "?h (Post ''/tls/private_keys'' (Tls_private_key key (common_name cert))) (2, ?st) =
      (Inr (Created ?i1), (3, ?st3))"
    using nf by (simp add: fastly_def assms(2) unnamed_def)
  have 4: "?h (Post ''/tls/certificates'' (certificate_payload body chain (common_name cert))) (3, ?st3) =
      (Inr (Created ?i2), (4, ?st4))"
    using nf by (simp add: fastly_def assms(2) unnamed_def certificate_payload_def truthy_def)
  have 5: "?h (Get ''/tls/activations'') (4, ?st4) =
      (Inr (Activations [Some a1, Some a2]), (5, ?st4))"
    using nf by (simp add: fastly_def)
  note u = upload_replacing [where http = "?h", OF assms(1) 1 2 l n 3 4 5]
  have m: "migrate ?h [act_id a1, act_id a2] (Some ?i2) (Some (crt_id c)) (Some (pk_id k))
      \<lparr>world = (5, ?st4), calls = cs\<rparr> =
     \<lparr>world = (9, \<lparr>private_keys = [?nk], certificates = [?nc],
          activations = [a1\<lparr>act_cert := ?i2\<rparr>, a2\<lparr>act_cert := ?i2\<rparr>]\<rparr>),
      calls = cs @
        [(Patch (''/tls/activations/'' @ act_id a1) (Tls_activation ?i2), Inr Other),
         (Patch (''/tls/activations/'' @ act_id a2) (Tls_activation ?i2), Inr Other),
         (Delete (''/tls/certificates/'' @ crt_id c), Inr Other),
         (Delete (''/tls/private_keys/'' @ pk_id k), Inr Other)]\<rparr>" for cs
    using nf i1 i2 assms(6,8)
    by (simp add: migrate_def truthy_def patch_activation_def delete_certificate_def
        delete_private_key_def http_patch_def http_delete_def send_def fastly_def Let_def
        member_of_def not_found_def eval_nat_numeral)
  show ?thesis
    apply (rule exI [of _ ?i1])
    apply (rule exI [of _ ?i2])
    using i1 i2 assms(9,10)
    apply (simp add: u m requests_def final_def assms(2))
    done
qed

theorem rotation_witness:
  "parse_certificate example_lib ''example.com'' = Inr (Inr [''example.com'']) \<and>
   common_name (Inr [''example.com'']) = Some ''example.com'' \<and>
   get_public_key_sha1 example_lib ''new'' = Inr (example_fp ''new'') \<and>
   ''old'' \<noteq> example_fp ''new'' \<and>
   (\<exists>new_key new_cert.
      new_key \<noteq> ''k1'' \<and> new_cert \<noteq> ''c1'' \<and>
      fst (upload example_lib (fastly example_fp never) ''example.com'' ''new'' ''chain''
             (start stale_inventory)) = Inr () \<and>
      requests (snd (upload example_lib (fastly example_fp never) ''example.com'' ''new'' ''chain''
             (start stale_inventory))) =
        [Get ''/tls/private_keys'', Get ''/tls/certificates'',
         Post ''/tls/private_keys'' (Tls_private_key ''new'' (Some ''example.com'')),
         Post ''/tls/certificates''
           (certificate_payload ''example.com'' ''chain'' (Some ''example.com'')),
         Get ''/tls/activations'',
         Patch ''/tls/activations/a1'' (Tls_activation new_cert),
         Patch ''/tls/activations/a2'' (Tls_activation new_cert),
         Delete ''/tls/certificates/c1'', Delete ''/tls/private_keys/k1''] \<and>
      final (snd (upload example_lib (fastly example_fp never) ''example.com'' ''new'' ''chain''
             (start stale_inventory))) =
        \<lparr>private_keys =
           [\<lparr>pk_id = new_key, pk_name = ''example.com'', pk_sha1 = example_fp ''new''\<rparr>],
         certificates = [\<lparr>crt_id = new_cert, crt_name = ''example.com''\<rparr>],
         activations =
           [\<lparr>act_id = ''a1'', act_cert = new_cert\<rparr>, \<lparr>act_id = ''a2'', act_cert = new_cert\<rparr>]\<rparr>)"
proof -
  have p: "parse_certificate example_lib ''example.com'' = Inr (Inr [''example.com''])"
    by (simp add: example_lib_def)
  have c: "common_name (Inr [''example.com'']) = Some ''example.com''"
    by (simp add: common_name_def strip_def whitespace_def)
  have d: "get_public_key_sha1 example_lib ''new'' = Inr (example_fp ''new'')"
    by (simp add: get_public_key_sha1_def example_lib_def example_fp_def)
  have o: "''old'' \<noteq> example_fp ''new''"
    by (simp add: example_fp_def)
  have n: "\<forall>n. \<not> never n"
    by (simp add: never_def)
  from rotation [where lib = example_lib and body = "''example.com''" and key = "''new''"
      and k = "\<lparr>pk_id = ''k1'', pk_name = ''example.com'', pk_sha1 = ''old''\<rparr>"
      and c = "\<lparr>crt_id = ''c1'', crt_name = ''example.com''\<rparr>"
      and ?a1.0 = "\<lparr>act_id = ''a1'', act_cert = ''c1''\<rparr>"
      and ?a2.0 = "\<lparr>act_id = ''a2'', act_cert = ''c1''\<rparr>"
      and fails = never and fp = example_fp and chain = "''chain''", OF p c d _ _ _ _ _ _ _ n]
  show ?thesis using p c d o by (simp add: stale_inventory_def)
qed

subsection \<open>The inventory along a run\<close>

lemma succeeded_simps [simp]: "succeeded (Inr b)" "\<not> succeeded (Inl e)"
  by (simp_all add: succeeded_def)

lemma appended_map_Some [simp]: "appended (map Some xs) = xs"
  by (induction xs) simp_all

lemma matching_map_Some:
  "matching (Some c) (map Some ds) = map act_id (filter (\<lambda>d. act_cert d = c) ds)"
  by (induction ds) simp_all

lemma patch_activation_fastly:
  "\<exists>r. calls (patch_activation (fastly fp fails) x n s) =
          calls s @ [(Patch (''/tls/activations/'' @ x) (Tls_activation n), r)] \<and>
        private_keys (final (patch_activation (fastly fp fails) x n s)) = private_keys (final s) \<and>
        certificates (final (patch_activation (fastly fp fails) x n s)) = certificates (final s) \<and>
        activations (final (patch_activation (fastly fp fails) x n s)) =
          (if succeeded r
           then map (\<lambda>d. if act_id d = x then d\<lparr>act_cert := n\<rparr> else d) (activations (final s))
           else activations (final s))"
  by (cases "world s")
    (simp add: patch_activation_def http_patch_def send_def fastly_def final_def member_of_def
      not_found_def)

lemma calls_patch_each_prefix:
  "\<exists>more. calls (patch_each http acts n s) = calls s @ more"
proof (induction acts arbitrary: s)
  case Nil
  show ?case by simp
next
  case (Cons x rest)
  obtain r w where "http (Patch (''/tls/activations/'' @ x) (Tls_activation n)) (world s) = (r, w)"
    by (cases "http (Patch (''/tls/activations/'' @ x) (Tls_activation n)) (world s)")
  from patch_activation_step [where http = http, OF this]
  have "calls (patch_activation http x n s) =
      calls s @ [(Patch (''/tls/activations/'' @ x) (Tls_activation n), r)]"
    by simp
  with Cons.IH [of "patch_activation http x n s"] show ?case by auto
qed

lemma patch_each_fastly_keeps:
  "private_keys (final (patch_each (fastly fp fails) acts n s)) = private_keys (final s) \<and>
   certificates (final (patch_each (fastly fp fails) acts n s)) = certificates (final s)"
proof (induction acts arbitrary: s)
  case Nil
  show ?case by simp
next
  case (Cons x rest)
  from patch_activation_fastly [of fp fails x n s] Cons.IH [of "patch_activation (fastly fp fails) x n s"]
  show ?case by auto
qed

lemma delete_certificate_fastly:
  "private_keys (final (delete_certificate (fastly fp fails) c s)) = private_keys (final s) \<and>
   activations (final (delete_certificate (fastly fp fails) c s)) = activations (final s)"
  by (cases "world s")
    (simp add: delete_certificate_def http_delete_def send_def fastly_def final_def member_of_def
      not_found_def)

lemma delete_private_key_fastly:
  "activations (final (delete_private_key (fastly fp fails) p s)) = activations (final s) \<and>
   (\<forall>k\<in>set (private_keys (final s)). pk_id k \<noteq> p \<longrightarrow>
      k \<in> set (private_keys (final (delete_private_key (fastly fp fails) p s))))"
  by (cases "world s")
    (simp add: delete_private_key_def http_delete_def send_def fastly_def final_def member_of_def
      not_found_def)

lemma calls_delete_certificate:
  "\<exists>r. calls (delete_certificate http c s) = calls s @ [(Delete (''/tls/certificates/'' @ c), r)]"
proof -
  obtain r w where "http (Delete (''/tls/certificates/'' @ c)) (world s) = (r, w)"
    by (cases "http (Delete (''/tls/certificates/'' @ c)) (world s)")
  from delete_certificate_step [where http = http, OF this] show ?thesis by simp
qed

lemma calls_delete_private_key:
  "\<exists>r. calls (delete_private_key http k s) = calls s @ [(Delete (''/tls/private_keys/'' @ k), r)]"
proof -
  obtain r w where "http (Delete (''/tls/private_keys/'' @ k)) (world s) = (r, w)"
    by (cases "http (Delete (''/tls/private_keys/'' @ k)) (world s)")
  from delete_private_key_step [where http = http, OF this] show ?thesis by simp
qed

lemma calls_migrate_patches:
  "set (calls (if acts \<noteq> [] \<and> truthy new then patch_each http acts (the new) s else s))
     \<subseteq> set (calls (migrate http acts new cert_id priv_id s))"
proof -
  let ?s6 = "if acts \<noteq> [] \<and> truthy new then patch_each http acts (the new) s else s"
  let ?s7 = "if truthy cert_id then delete_certificate http (the cert_id) ?s6 else ?s6"
  have 7: "set (calls ?s6) \<subseteq> set (calls ?s7)"
    using calls_delete_certificate [of http "the cert_id" ?s6] by auto
  have m: "migrate http acts new cert_id priv_id s =
      (if truthy priv_id then delete_private_key http (the priv_id) ?s7 else ?s7)"
    by (simp add: migrate_def Let_def)
  have "set (calls ?s7) \<subseteq> set (calls (migrate http acts new cert_id priv_id s))"
    unfolding m using calls_delete_private_key [of http "the priv_id" ?s7] by auto
  with 7 show ?thesis by blast
qed

lemma scan_certs_listed:
  "scan_certs cname cert_keys c0 = Some c \<Longrightarrow> c0 = Some c \<or> c \<in> crt_id ` set cert_keys"
  by (induction cert_keys arbitrary: c0) (auto split: if_splits)

lemma scan_keys_cert_listed:
  "scan_keys lib key cname cert_keys priv_keys (p0, c0, f0) = Inr (p, Some c, f) \<Longrightarrow>
   c0 = Some c \<or> c \<in> crt_id ` set cert_keys"
proof (induction priv_keys arbitrary: p0 c0 f0)
  case Nil
  then show ?case by simp
next
  case (Cons each rest)
  show ?case
  proof (cases "Some (pk_name each) = cname")
    case False
    with Cons.prems Cons.IH show ?thesis by simp
  next
    case True
    show ?thesis
    proof (cases "get_public_key_sha1 lib key")
      case (Inl e)
      with Cons.prems True show ?thesis by simp
    next
      case (Inr d)
      show ?thesis
      proof (cases "pk_sha1 each = d")
        case True
        with Cons.prems Inr \<open>Some (pk_name each) = cname\<close> show ?thesis by simp
      next
        case False
        with Cons.prems Inr True
        have "scan_keys lib key cname cert_keys rest
            (Some (pk_id each), scan_certs cname cert_keys c0, True) = Inr (p, Some c, f)"
          by simp
        from Cons.IH [OF this] scan_certs_listed [of cname cert_keys c0 c] show ?thesis by auto
      qed
    qed
  qed
qed

lemma lookup_cert_listed:
  "lookup lib key cname cert_keys priv_keys = Inr (p, Some c, f) \<Longrightarrow> c \<in> crt_id ` set cert_keys"
  using scan_keys_cert_listed [of lib key cname cert_keys priv_keys None None False p c f]
  by (simp add: lookup_def)

lemma calls_migrate_prefix:
  "set (calls s) \<subseteq> set (calls (migrate http acts new cert_id priv_id s))"
proof -
  have "set (calls s) \<subseteq>
      set (calls (if acts \<noteq> [] \<and> truthy new then patch_each http acts (the new) s else s))"
    using calls_patch_each_prefix [of http acts "the new" s] by auto
  with calls_migrate_patches [of acts new http s cert_id priv_id] show ?thesis by blast
qed

lemma fastly_get_keys:
  "\<exists>r. fastly fp fails (Get ''/tls/private_keys'') (n, st) = (r, (Suc n, st)) \<and>
        set (read_private_keys r) \<subseteq> set (private_keys st) \<and>
        (succeeded r \<longrightarrow> read_private_keys r = private_keys st)"
  by (cases "fails n") (simp_all add: fastly_def)

lemma fastly_get_certs:
  "\<exists>r. fastly fp fails (Get ''/tls/certificates'') (n, st) = (r, (Suc n, st)) \<and>
        set (read_certificates r) \<subseteq> set (certificates st)"
  by (cases "fails n") (simp_all add: fastly_def)

lemma fastly_post_key:
  "\<exists>r st'. fastly fp fails (Post ''/tls/private_keys'' (Tls_private_key key name)) (n, st) =
          (r, (Suc n, st')) \<and>
        activations st' = activations st \<and> certificates st' = certificates st \<and>
        set (private_keys st) \<subseteq> set (private_keys st') \<and>
        (succeeded r \<longrightarrow>
           \<lparr>pk_id = fresh_id st, pk_name = unnamed name, pk_sha1 = fp key\<rparr> \<in> set (private_keys st'))"
  by (cases "fails n") (auto simp: fastly_def)

lemma fastly_post_cert:
  "\<exists>r st'. fastly fp fails (Post ''/tls/certificates'' (certificate_payload body chain name)) (n, st) =
          (r, (Suc n, st')) \<and>
        activations st' = activations st \<and> private_keys st' = private_keys st \<and>
        (succeeded r \<longrightarrow> r = Inr (Created (fresh_id st)))"
  by (cases "fails n") (simp_all add: fastly_def certificate_payload_def)

lemma fastly_get_acts:
  "\<exists>r. fastly fp fails (Get ''/tls/activations'') (n, st) = (r, (Suc n, st)) \<and>
        (succeeded r \<longrightarrow> r = Inr (Activations (map Some (activations st))))"
  by (cases "fails n") (simp_all add: fastly_def)

lemma delete_in_requests:
  "Delete (''/tls/certificates/'' @ c) \<in> set
     ((if acts \<noteq> [] \<and> truthy new
       then map (\<lambda>a. Patch (''/tls/activations/'' @ a) (Tls_activation (the new))) acts
       else []) @
      (if truthy cert_id then [Delete (''/tls/certificates/'' @ the cert_id)] else []) @
      (if truthy priv_id then [Delete (''/tls/private_keys/'' @ the priv_id)] else [])) \<Longrightarrow>
   cert_id = Some c"
  by (cases cert_id) (auto simp: truthy_def split: if_splits)

lemma calls_patch_each:
  "\<exists>more. calls (patch_each http acts n s) = calls s @ more \<and>
     map fst more = map (\<lambda>a. Patch (''/tls/activations/'' @ a) (Tls_activation n)) acts"
proof -
  obtain more where m: "calls (patch_each http acts n s) = calls s @ more"
    using calls_patch_each_prefix by blast
  from requests_patch_each [of http acts n s]
  have "map fst more = map (\<lambda>a. Patch (''/tls/activations/'' @ a) (Tls_activation n)) acts"
    by (simp add: requests_def m)
  with m show ?thesis by blast
qed

lemma patch_each_succeeded:
  assumes "\<forall>(rq, r)\<in>set (calls (patch_each (fastly fp fails) acts n s)). repointing rq \<longrightarrow> succeeded r"
  shows "activations (final (patch_each (fastly fp fails) acts n s)) =
     map (\<lambda>d. if act_id d \<in> set acts then d\<lparr>act_cert := n\<rparr> else d) (activations (final s))"
  using assms
proof (induction acts arbitrary: s)
  case Nil
  show ?case by simp
next
  case (Cons x rest)
  let ?s1 = "patch_activation (fastly fp fails) x n s"
  obtain r where c: "calls ?s1 = calls s @ [(Patch (''/tls/activations/'' @ x) (Tls_activation n), r)]"
    and a: "activations (final ?s1) =
          (if succeeded r
           then map (\<lambda>d. if act_id d = x then d\<lparr>act_cert := n\<rparr> else d) (activations (final s))
           else activations (final s))"
    using patch_activation_fastly [of fp fails x n s] by blast
  obtain more where m: "calls (patch_each (fastly fp fails) rest n ?s1) = calls ?s1 @ more"
    using calls_patch_each_prefix by blast
  have "(Patch (''/tls/activations/'' @ x) (Tls_activation n), r) \<in>
      set (calls (patch_each (fastly fp fails) (x # rest) n s))"
    by (simp add: m c)
  with Cons.prems have r: "succeeded r" by fastforce
  have 1: "\<forall>(rq, r)\<in>set (calls (patch_each (fastly fp fails) rest n ?s1)). repointing rq \<longrightarrow> succeeded r"
    using Cons.prems by simp
  show ?case
    by (simp add: Cons.IH [OF 1] a r)
qed

lemma delete_in_requests_truthy:
  "Delete (''/tls/certificates/'' @ c) \<in> set
     ((if acts \<noteq> [] \<and> truthy new
       then map (\<lambda>a. Patch (''/tls/activations/'' @ a) (Tls_activation (the new))) acts
       else []) @
      (if truthy cert_id then [Delete (''/tls/certificates/'' @ the cert_id)] else []) @
      (if truthy priv_id then [Delete (''/tls/private_keys/'' @ the priv_id)] else [])) \<Longrightarrow>
   truthy cert_id"
  by (cases cert_id) (auto simp: truthy_def split: if_splits)

lemma migrate_truthy:
  assumes "truthy (Some n)" and "truthy (Some c)"
  shows "migrate http acts (Some n) (Some c) priv_id s =
     (if truthy priv_id
      then delete_private_key http (the priv_id) (delete_certificate http c (patch_each http acts n s))
      else delete_certificate http c (patch_each http acts n s))"
  using assms by (cases acts) (simp_all add: migrate_def Let_def)

text \<open>
  C2 (as amended).  On the modelled service: if in a run the create of the certificate, the
  listing of the activations and every update of an activation succeed, and the run issues
  the delete of the certificate \<open>c\<close>, then the calls of the run are \<open>pre\<close>, the delete of
  \<open>c\<close>, and \<open>post\<close>, where \<open>pre\<close> holds no delete and \<open>post\<close> nothing but deletes; the
  certificate \<open>n\<close> was created in \<open>pre\<close> and is not \<open>c\<close>; every activation that
  referenced \<open>c\<close> has in \<open>pre\<close> a successful update to \<open>n\<close>, and references \<open>n\<close> at the
  end; and at the end no activation references \<open>c\<close>.  Runs in which one of these calls
  fails are not covered.
\<close>

theorem repointed_before_delete:
  assumes "\<forall>(rq, r)\<in>set (calls (snd (upload lib (fastly fp fails) body key chain (start st)))).
             repointing rq \<longrightarrow> succeeded r"
      and "Delete (''/tls/certificates/'' @ c) \<in>
             set (requests (snd (upload lib (fastly fp fails) body key chain (start st))))"
  shows "\<exists>n pre r post.
     calls (snd (upload lib (fastly fp fails) body key chain (start st))) =
       pre @ (Delete (''/tls/certificates/'' @ c), r) # post \<and>
     (\<forall>rq\<in>set (map fst pre). \<forall>path. rq \<noteq> Delete path) \<and>
     (\<forall>rq\<in>set (map fst post). \<exists>path. rq = Delete path) \<and>
     (\<exists>data. (Post ''/tls/certificates'' data, Inr (Created n)) \<in> set pre) \<and>
     n \<noteq> c \<and>
     (\<forall>a\<in>set (activations st). act_cert a = c \<longrightarrow>
        (\<exists>r'. (Patch (''/tls/activations/'' @ act_id a) (Tls_activation n), r') \<in> set pre \<and>
              succeeded r') \<and>
        a\<lparr>act_cert := n\<rparr> \<in>
          set (activations (final (snd (upload lib (fastly fp fails) body key chain (start st)))))) \<and>
     (\<forall>a\<in>set (activations (final (snd (upload lib (fastly fp fails) body key chain (start st))))).
        act_cert a \<noteq> c)"
proof (cases "parse_certificate lib body")
  case (Inl e)
  then have "upload lib (fastly fp fails) body key chain (start st) = (Inl e, start st)"
    by (simp add: upload_def)
  with assms(2) show ?thesis by simp
next
  case (Inr cert)
  let ?h = "fastly fp fails"
  let ?kp = "Tls_private_key key (common_name cert)"
  let ?cp = "certificate_payload body chain (common_name cert)"
  obtain r1 where 1: "?h (Get ''/tls/private_keys'') (world (start st)) = (r1, (1, st))"
    using fastly_get_keys [of fp fails 0 st] by auto
  obtain r2 where 2: "?h (Get ''/tls/certificates'') (1, st) = (r2, (2, st))"
    and c2: "set (read_certificates r2) \<subseteq> set (certificates st)"
    using fastly_get_certs [of fp fails 1 st] by (auto simp: eval_nat_numeral)
  note u = upload_steps [where http = "?h" and key = key and chain = chain, OF Inr 1 2]
  show ?thesis
  proof (cases "lookup lib key (common_name cert) (read_certificates r2) (read_private_keys r1)")
    case (Inl e)
    with u assms(2) show ?thesis by (simp add: requests_def)
  next
    case v: (Inr v)
    obtain priv_id cert_id name_found where v': "v = (priv_id, cert_id, name_found)"
      by (cases v)
    show ?thesis
    proof (cases "upload_needed v")
      case False
      with u v assms(2) show ?thesis by (simp add: requests_def)
    next
      case True
      obtain r3 st3 where 3: "?h (Post ''/tls/private_keys'' ?kp) (2, st) = (r3, (3, st3))"
        and a3: "activations st3 = activations st" and c3: "certificates st3 = certificates st"
        using fastly_post_key [of fp fails key "common_name cert" 2 st]
        by (auto simp: eval_nat_numeral)
      obtain r4 st4 where 4: "?h (Post ''/tls/certificates'' ?cp) (3, st3) = (r4, (4, st4))"
        and a4: "activations st4 = activations st3"
        and r4: "succeeded r4 \<longrightarrow> r4 = Inr (Created (fresh_id st3))"
        using fastly_post_cert [of fp fails body chain "common_name cert" 3 st3]
        by (auto simp: eval_nat_numeral)
      obtain r5 where 5: "?h (Get ''/tls/activations'') (4, st4) = (r5, (5, st4))"
        and r5: "succeeded r5 \<longrightarrow> r5 = Inr (Activations (map Some (activations st4)))"
        using fastly_get_acts [of fp fails 4 st4] by (auto simp: eval_nat_numeral)
      let ?c5 = "[(Get ''/tls/private_keys'', r1), (Get ''/tls/certificates'', r2),
            (Post ''/tls/private_keys'' ?kp, r3), (Post ''/tls/certificates'' ?cp, r4),
            (Get ''/tls/activations'', r5)]"
      let ?s5 = "\<lparr>world = (5::nat, st4), calls = ?c5\<rparr>"
      let ?s' = "migrate ?h (read_activation cert_id r5) (read_created r4) cert_id priv_id ?s5"
      let ?n = "fresh_id st3"
      let ?acts = "map act_id (filter (\<lambda>d. act_cert d = c) (activations st))"
      have l: "lookup lib key (common_name cert) (read_certificates r2) (read_private_keys r1) =
          Inr (priv_id, cert_id, name_found)"
        using v v' by simp
      have n: "upload_needed (priv_id, cert_id, name_found)"
        using True v' by simp
      have s': "snd (upload lib ?h body key chain (start st)) = ?s'"
        by (simp add: upload_replacing [where http = "?h", OF Inr 1 2 l n 3 4 5])
      have "Delete (''/tls/certificates/'' @ c) \<in> set (requests ?s')"
        using assms(2) by (simp only: s')
      note d = this
      then have cert_id: "cert_id = Some c"
        by (intro delete_in_requests [of c "read_activation cert_id r5" "read_created r4" cert_id priv_id])
          (simp add: requests_migrate, simp add: requests_def)
      have "truthy cert_id"
        using d
        by (intro delete_in_requests_truthy [of c "read_activation cert_id r5" "read_created r4" cert_id priv_id])
          (simp add: requests_migrate, simp add: requests_def)
      then have tc: "truthy (Some c)"
        by (simp add: cert_id)
      have all: "\<forall>(rq, r)\<in>set (calls ?s'). repointing rq \<longrightarrow> succeeded r"
        using assms(1) by (simp only: s')
      have sub5: "set (calls ?s5) \<subseteq> set (calls ?s')"
        by (rule calls_migrate_prefix)
      with all have ok: "succeeded r4" "succeeded r5"
        by fastforce+
      have r4': "r4 = Inr (Created ?n)"
        using r4 ok by simp
      have created: "read_created r4 = Some ?n"
        using r4' by simp
      have acts: "read_activation (Some c) r5 = ?acts"
        using r5 ok by (simp add: matching_map_Some a4 a3)
      have "c \<in> crt_id ` set (read_certificates r2)"
        using l cert_id by (auto dest: lookup_cert_listed)
      with c2 c3 have "c \<in> set (identifiers st3)"
        by (auto simp: identifiers_def)
      then have new: "?n \<noteq> c"
        by (rule fresh_id_new)
      have tn: "truthy (Some ?n)"
        by (simp add: truthy_def)
      let ?s6 = "patch_each ?h ?acts ?n ?s5"
      let ?s7 = "delete_certificate ?h c ?s6"
      have m: "?s' = (if truthy priv_id then delete_private_key ?h (the priv_id) ?s7 else ?s7)"
        unfolding cert_id created acts by (rule migrate_truthy [OF tn tc])
      obtain more where more: "calls ?s6 = calls ?s5 @ more"
        and fm: "map fst more =
          map (\<lambda>a. Patch (''/tls/activations/'' @ a) (Tls_activation ?n)) ?acts"
        using calls_patch_each [of ?h ?acts ?n ?s5] by blast
      obtain r where c7: "calls ?s7 = calls ?s6 @ [(Delete (''/tls/certificates/'' @ c), r)]"
        using calls_delete_certificate [of ?h c ?s6] by blast
      obtain post where post: "calls ?s' = calls ?s7 @ post"
        and fp: "\<forall>rq\<in>set (map fst post). \<exists>path. rq = Delete path"
      proof (cases "truthy priv_id")
        case False
        with m have "calls ?s' = calls ?s7 @ []" by simp
        then show ?thesis using that [of "[]"] by simp
      next
        case True
        obtain r' where "calls (delete_private_key ?h (the priv_id) ?s7) =
            calls ?s7 @ [(Delete (''/tls/private_keys/'' @ the priv_id), r')]"
          using calls_delete_private_key [of ?h "the priv_id" ?s7] by blast
        with m True have "calls ?s' =
            calls ?s7 @ [(Delete (''/tls/private_keys/'' @ the priv_id), r')]" by simp
        then show ?thesis
          using that [of "[(Delete (''/tls/private_keys/'' @ the priv_id), r')]"] by simp
      qed
      have dec: "calls ?s' = calls ?s6 @ (Delete (''/tls/certificates/'' @ c), r) # post"
        by (simp add: post c7)
      have pre_nd: "\<forall>rq\<in>set (map fst (calls ?s6)). \<forall>path. rq \<noteq> Delete path"
        by (auto simp: more fm)
      have pre_post: "(Post ''/tls/certificates'' ?cp, Inr (Created ?n)) \<in> set (calls ?s6)"
        by (rule subst [OF r4',
              where P = "\<lambda>z. (Post ''/tls/certificates'' ?cp, z) \<in> set (calls ?s6)"])
          (simp add: more)
      have all6: "\<forall>(rq, r)\<in>set (calls ?s6). repointing rq \<longrightarrow> succeeded r"
        using all by (simp only: dec) auto
      have f6: "activations (final ?s6) =
          map (\<lambda>d. if act_id d \<in> set ?acts then d\<lparr>act_cert := ?n\<rparr> else d) (activations st)"
      proof -
        have "activations (final ?s5) = activations st"
          by (simp add: final_def a4 a3)
        with patch_each_succeeded [OF all6] show ?thesis by (simp only:)
      qed
      have f': "activations (final ?s') = activations (final ?s6)"
        by (simp add: m delete_certificate_fastly delete_private_key_fastly)
      have each: "(\<exists>r'. (Patch (''/tls/activations/'' @ act_id a) (Tls_activation ?n), r')
              \<in> set (calls ?s6) \<and> succeeded r') \<and>
          a\<lparr>act_cert := ?n\<rparr> \<in> set (activations (final ?s'))"
        if a: "a \<in> set (activations st)" and ac: "act_cert a = c" for a
      proof -
        from a ac have i: "act_id a \<in> set ?acts" by auto
        then have "Patch (''/tls/activations/'' @ act_id a) (Tls_activation ?n) \<in> set (map fst more)"
          by (auto simp: fm)
        then obtain r' where r': "(Patch (''/tls/activations/'' @ act_id a) (Tls_activation ?n), r')
            \<in> set more"
          by auto
        then have in6: "(Patch (''/tls/activations/'' @ act_id a) (Tls_activation ?n), r')
            \<in> set (calls ?s6)"
          by (simp add: more)
        with all6 have "succeeded r'" by fastforce
        moreover from a i have "a\<lparr>act_cert := ?n\<rparr> \<in> set (activations (final ?s'))"
          by (simp add: f' f6)
        ultimately show ?thesis using in6 by blast
      qed
      have none: "\<forall>a\<in>set (activations (final ?s')). act_cert a \<noteq> c"
        using new by (auto simp: f' f6)
      show ?thesis
        unfolding s'
        apply (rule exI [of _ ?n])
        apply (rule exI [of _ "calls ?s6"])
        apply (rule exI [of _ r])
        apply (rule exI [of _ post])
        using dec pre_nd fp pre_post new each none
        apply blast
        done
    qed
  qed
qed

lemma stale_run:
  "upload example_lib (fastly example_fp never) ''example.com'' ''new'' ''chain''
     (start stale_inventory) =
   (Inr (),
    \<lparr>world =
       (9, \<lparr>private_keys =
              [\<lparr>pk_id = ''xxx'', pk_name = ''example.com'', pk_sha1 = example_fp ''new''\<rparr>],
            certificates = [\<lparr>crt_id = ''xxxx'', crt_name = ''example.com''\<rparr>],
            activations =
              [\<lparr>act_id = ''a1'', act_cert = ''xxxx''\<rparr>, \<lparr>act_id = ''a2'', act_cert = ''xxxx''\<rparr>]\<rparr>),
     calls =
       [(Get ''/tls/private_keys'',
         Inr (Private_keys [Some \<lparr>pk_id = ''k1'', pk_name = ''example.com'', pk_sha1 = ''old''\<rparr>])),
        (Get ''/tls/certificates'',
         Inr (Certificates [Some \<lparr>crt_id = ''c1'', crt_name = ''example.com''\<rparr>])),
        (Post ''/tls/private_keys'' (Tls_private_key ''new'' (Some ''example.com'')),
         Inr (Created ''xxx'')),
        (Post ''/tls/certificates''
           (certificate_payload ''example.com'' ''chain'' (Some ''example.com'')),
         Inr (Created ''xxxx'')),
        (Get ''/tls/activations'',
         Inr (Activations
               [Some \<lparr>act_id = ''a1'', act_cert = ''c1''\<rparr>,
                Some \<lparr>act_id = ''a2'', act_cert = ''c1''\<rparr>])),
        (Patch ''/tls/activations/a1'' (Tls_activation ''xxxx''), Inr Other),
        (Patch ''/tls/activations/a2'' (Tls_activation ''xxxx''), Inr Other),
        (Delete ''/tls/certificates/c1'', Inr Other),
        (Delete ''/tls/private_keys/k1'', Inr Other)]\<rparr>)"
  by (simp add: run_defs example_defs fastly_defs Let_def eval_nat_numeral)

theorem repointed_before_delete_witness:
  "list_all (\<lambda>call. succeeded (snd call))
     (calls (snd (upload example_lib (fastly example_fp never) ''example.com'' ''new'' ''chain''
        (start stale_inventory)))) \<and>
   Delete (''/tls/certificates/'' @ ''c1'') \<in>
     set (requests (snd (upload example_lib (fastly example_fp never) ''example.com'' ''new''
        ''chain'' (start stale_inventory)))) \<and>
   (\<exists>n pre r post.
     calls (snd (upload example_lib (fastly example_fp never) ''example.com'' ''new'' ''chain''
        (start stale_inventory))) =
       pre @ (Delete (''/tls/certificates/'' @ ''c1''), r) # post \<and>
     (\<forall>rq\<in>set (map fst pre). \<forall>path. rq \<noteq> Delete path) \<and>
     (\<forall>rq\<in>set (map fst post). \<exists>path. rq = Delete path) \<and>
     (\<exists>data. (Post ''/tls/certificates'' data, Inr (Created n)) \<in> set pre) \<and>
     n \<noteq> ''c1'' \<and>
     (\<forall>a\<in>set (activations stale_inventory). act_cert a = ''c1'' \<longrightarrow>
        (\<exists>r'. (Patch (''/tls/activations/'' @ act_id a) (Tls_activation n), r') \<in> set pre \<and>
              succeeded r') \<and>
        a\<lparr>act_cert := n\<rparr> \<in>
          set (activations (final (snd (upload example_lib (fastly example_fp never)
            ''example.com'' ''new'' ''chain'' (start stale_inventory)))))) \<and>
     (\<forall>a\<in>set (activations (final (snd (upload example_lib (fastly example_fp never)
         ''example.com'' ''new'' ''chain'' (start stale_inventory))))).
        act_cert a \<noteq> ''c1''))"
proof -
  let ?s = "snd (upload example_lib (fastly example_fp never) ''example.com'' ''new'' ''chain''
        (start stale_inventory))"
  have a: "list_all (\<lambda>call. succeeded (snd call)) (calls ?s)"
    by (simp add: stale_run)
  then have h: "\<forall>(rq, r)\<in>set (calls ?s). repointing rq \<longrightarrow> succeeded r"
    by (auto simp: list_all_iff)
  have d: "Delete (''/tls/certificates/'' @ ''c1'') \<in> set (requests ?s)"
    by (simp add: stale_run requests_def)
  from repointed_before_delete [OF h d] a d show ?thesis by (intro conjI)
qed

text \<open>
  The claim as stated fails.  The update of the activation \<open>a1\<close> fails (request 5); the run
  deletes the old certificate \<open>c1\<close> all the same, and \<open>a1\<close> is left referencing it.
\<close>

theorem dangling_activation_counterexample:
  "upload example_lib (fastly example_fp (only 5)) ''example.com'' ''new'' ''chain''
     (start stale_inventory) =
   (Inr (),
    \<lparr>world =
       (9, \<lparr>private_keys =
              [\<lparr>pk_id = ''xxx'', pk_name = ''example.com'', pk_sha1 = example_fp ''new''\<rparr>],
            certificates = [\<lparr>crt_id = ''xxxx'', crt_name = ''example.com''\<rparr>],
            activations =
              [\<lparr>act_id = ''a1'', act_cert = ''c1''\<rparr>, \<lparr>act_id = ''a2'', act_cert = ''xxxx''\<rparr>]\<rparr>),
     calls =
       [(Get ''/tls/private_keys'',
         Inr (Private_keys [Some \<lparr>pk_id = ''k1'', pk_name = ''example.com'', pk_sha1 = ''old''\<rparr>])),
        (Get ''/tls/certificates'',
         Inr (Certificates [Some \<lparr>crt_id = ''c1'', crt_name = ''example.com''\<rparr>])),
        (Post ''/tls/private_keys'' (Tls_private_key ''new'' (Some ''example.com'')),
         Inr (Created ''xxx'')),
        (Post ''/tls/certificates''
           (certificate_payload ''example.com'' ''chain'' (Some ''example.com'')),
         Inr (Created ''xxxx'')),
        (Get ''/tls/activations'',
         Inr (Activations
               [Some \<lparr>act_id = ''a1'', act_cert = ''c1''\<rparr>,
                Some \<lparr>act_id = ''a2'', act_cert = ''c1''\<rparr>])),
        (Patch ''/tls/activations/a1'' (Tls_activation ''xxxx''), Inl RequestException),
        (Patch ''/tls/activations/a2'' (Tls_activation ''xxxx''), Inr Other),
        (Delete ''/tls/certificates/c1'', Inr Other),
        (Delete ''/tls/private_keys/k1'', Inr Other)]\<rparr>)"
  by (simp add: run_defs example_defs fastly_defs Let_def eval_nat_numeral)

subsection \<open>A second run\<close>

lemma lookup_needed_by_keys:
  assumes "get_public_key_sha1 lib key = Inr d"
  shows "\<exists>c. lookup lib key cname cert_keys priv_keys =
     Inr (if \<exists>k\<in>set priv_keys. Some (pk_name k) = cname \<and> pk_sha1 k = d then None
          else if filter (\<lambda>k. Some (pk_name k) = cname) priv_keys = [] then None
          else Some (pk_id (last (filter (\<lambda>k. Some (pk_name k) = cname) priv_keys))),
          c, filter (\<lambda>k. Some (pk_name k) = cname) priv_keys \<noteq> [])"
  unfolding lookup_def by (simp add: scan_keys_eq [OF assms] filter_empty_conv)

lemma lookup_same_need:
  assumes "get_public_key_sha1 lib key = Inr d"
      and "lookup lib key cname cert_keys priv_keys = Inr v"
  shows "\<exists>v'. lookup lib key cname cert_keys' priv_keys = Inr v' \<and>
     upload_needed v' = upload_needed v"
proof -
  from lookup_needed_by_keys [OF assms(1), of cname cert_keys priv_keys] assms(2)
  obtain c where v: "v = (if \<exists>k\<in>set priv_keys. Some (pk_name k) = cname \<and> pk_sha1 k = d then None
          else if filter (\<lambda>k. Some (pk_name k) = cname) priv_keys = [] then None
          else Some (pk_id (last (filter (\<lambda>k. Some (pk_name k) = cname) priv_keys))),
          c, filter (\<lambda>k. Some (pk_name k) = cname) priv_keys \<noteq> [])"
    by auto
  from lookup_needed_by_keys [OF assms(1), of cname cert_keys' priv_keys]
  obtain c' where "lookup lib key cname cert_keys' priv_keys =
     Inr (if \<exists>k\<in>set priv_keys. Some (pk_name k) = cname \<and> pk_sha1 k = d then None
          else if filter (\<lambda>k. Some (pk_name k) = cname) priv_keys = [] then None
          else Some (pk_id (last (filter (\<lambda>k. Some (pk_name k) = cname) priv_keys))),
          c', filter (\<lambda>k. Some (pk_name k) = cname) priv_keys \<noteq> [])"
    by auto
  with v show ?thesis by (simp add: upload_needed_def)
qed

lemma lookup_match_no_need:
  assumes "get_public_key_sha1 lib key = Inr d"
      and "k \<in> set priv_keys" and "Some (pk_name k) = cname" and "pk_sha1 k = d"
  shows "\<exists>v. lookup lib key cname cert_keys priv_keys = Inr v \<and> \<not> upload_needed v"
proof -
  have "\<exists>k\<in>set priv_keys. Some (pk_name k) = cname \<and> pk_sha1 k = d"
    using assms(2,3,4) by blast
  with lookup_needed_by_keys [OF assms(1), of cname cert_keys priv_keys] assms(2,3)
  show ?thesis by (auto simp: upload_needed_def truthy_def filter_empty_conv)
qed

lemma lookup_key_listed:
  assumes "get_public_key_sha1 lib key = Inr d"
      and "lookup lib key cname cert_keys priv_keys = Inr (Some p, c, f)"
  shows "p \<in> pk_id ` set priv_keys"
proof -
  let ?named = "filter (\<lambda>k. Some (pk_name k) = cname) priv_keys"
  from lookup_needed_by_keys [OF assms(1), of cname cert_keys priv_keys] assms(2)
  have "?named \<noteq> []" and "p = pk_id (last ?named)"
    by (auto split: if_splits)
  moreover from \<open>?named \<noteq> []\<close> have "last ?named \<in> set ?named"
    by (rule last_in_set)
  ultimately show ?thesis by auto
qed

lemma migrate_keeps_key:
  assumes "k \<in> set (private_keys (final s))" and "priv_id \<noteq> Some (pk_id k)"
  shows "k \<in> set (private_keys (final (migrate (fastly fp fails) acts new cert_id priv_id s)))"
proof -
  let ?h = "fastly fp fails"
  let ?s6 = "if acts \<noteq> [] \<and> truthy new then patch_each ?h acts (the new) s else s"
  let ?s7 = "if truthy cert_id then delete_certificate ?h (the cert_id) ?s6 else ?s6"
  have 6: "private_keys (final ?s6) = private_keys (final s)"
    by (simp add: patch_each_fastly_keeps)
  have 7: "private_keys (final ?s7) = private_keys (final s)"
    by (simp add: 6 delete_certificate_fastly)
  have m: "migrate ?h acts new cert_id priv_id s =
      (if truthy priv_id then delete_private_key ?h (the priv_id) ?s7 else ?s7)"
    by (simp add: migrate_def Let_def)
  show ?thesis
  proof (cases "truthy priv_id")
    case False
    with assms(1) 7 m show ?thesis by simp
  next
    case True
    then obtain p where p: "priv_id = Some p" by (cases priv_id) (simp_all add: truthy_def)
    with assms(2) have "pk_id k \<noteq> p" by auto
    moreover have "k \<in> set (private_keys (final ?s7))" using assms(1) 7 by simp
    ultimately have "k \<in> set (private_keys (final (delete_private_key ?h p ?s7)))"
      using delete_private_key_fastly [of fp fails p ?s7] by blast
    with True p m show ?thesis by simp
  qed
qed

lemma fastly_get_keys_ok:
  "\<not> fails n \<Longrightarrow> fastly fp fails (Get ''/tls/private_keys'') (n, st) =
     (Inr (Private_keys (map Some (private_keys st))), (Suc n, st))"
  by (simp add: fastly_def)

text \<open>The second run, from what the first run left, given what the lookup finds.\<close>

lemma second_run:
  assumes "parse_certificate lib body = Inr cert"
      and "\<not> fails n"
      and "\<And>cert_keys. \<exists>v. lookup lib key (common_name cert) cert_keys (private_keys st) = Inr v \<and>
             \<not> upload_needed v"
  shows "fst (upload lib (fastly fp fails) body key chain \<lparr>world = (n, st), calls = []\<rparr>) = Inr () \<and>
     requests (snd (upload lib (fastly fp fails) body key chain \<lparr>world = (n, st), calls = []\<rparr>)) =
       [Get ''/tls/private_keys'', Get ''/tls/certificates''] \<and>
     final (snd (upload lib (fastly fp fails) body key chain \<lparr>world = (n, st), calls = []\<rparr>)) = st"
proof -
  let ?h = "fastly fp fails"
  let ?s = "\<lparr>world = (n, st), calls = []\<rparr> :: (nat \<times> inventory) session"
  have 1: "?h (Get ''/tls/private_keys'') (world ?s) =
      (Inr (Private_keys (map Some (private_keys st))), (Suc n, st))"
    using assms(2) by (simp add: fastly_get_keys_ok)
  obtain r2 where 2: "?h (Get ''/tls/certificates'') (Suc n, st) = (r2, (Suc (Suc n), st))"
    using fastly_get_certs [of fp fails "Suc n" st] by auto
  from assms(3) [of "read_certificates r2"]
  obtain v where v: "lookup lib key (common_name cert) (read_certificates r2) (private_keys st) = Inr v"
    and n: "\<not> upload_needed v" by blast
  show ?thesis
    by (simp add: upload_steps [where http = "?h", OF assms(1) 1 2] v n requests_def final_def)
qed

text \<open>
  C3 (as amended).  On the modelled service, provided it stores for an uploaded key the
  fingerprint that \<^verbatim>\<open>get_public_key_sha1\<close> computes (the digest of the PEM encoding):
  after a first run that returned and in which every call succeeded, a second run for the
  same certificate (with a common name) and key, whose listing of the private keys does not
  fail, issues the two listings and nothing else (the branch that uploads is not taken) and
  leaves the inventory as it was.
\<close>

theorem second_run_is_no_op:
  assumes "parse_certificate lib body = Inr cert" and "common_name cert = Some nm"
      and "get_public_key_sha1 lib key = Inr (fp key)"
      and "upload lib (fastly fp fails) body key chain (start st) = (Inr (), s1)"
      and "\<forall>(rq, r)\<in>set (calls s1). succeeded r"
      and "\<not> fails (fst (world s1))"
  shows "fst (upload lib (fastly fp fails) body key chain \<lparr>world = world s1, calls = []\<rparr>) = Inr () \<and>
     requests (snd (upload lib (fastly fp fails) body key chain \<lparr>world = world s1, calls = []\<rparr>)) =
       [Get ''/tls/private_keys'', Get ''/tls/certificates''] \<and>
     final (snd (upload lib (fastly fp fails) body key chain \<lparr>world = world s1, calls = []\<rparr>)) =
       final s1"
proof -
  let ?h = "fastly fp fails"
  let ?kp = "Tls_private_key key (common_name cert)"
  let ?cp = "certificate_payload body chain (common_name cert)"
  obtain n1 st1 where w1: "world s1 = (n1, st1)" by (cases "world s1")
  have f1: "final s1 = st1" by (simp add: final_def w1)
  have nf: "\<not> fails n1" using assms(6) by (simp add: w1)
  obtain r1 where 1: "?h (Get ''/tls/private_keys'') (world (start st)) = (r1, (1, st))"
    and k1: "succeeded r1 \<longrightarrow> read_private_keys r1 = private_keys st"
    using fastly_get_keys [of fp fails 0 st] by auto
  obtain r2 where 2: "?h (Get ''/tls/certificates'') (1, st) = (r2, (2, st))"
    using fastly_get_certs [of fp fails 1 st] by (auto simp: eval_nat_numeral)
  note u = upload_steps [where http = "?h" and key = key and chain = chain, OF assms(1) 1 2]
  obtain v where v: "lookup lib key (common_name cert) (read_certificates r2) (read_private_keys r1) =
      Inr v"
    using u assms(4) by (cases "lookup lib key (common_name cert) (read_certificates r2)
      (read_private_keys r1)") simp_all
  obtain priv_id cert_id name_found where v': "v = (priv_id, cert_id, name_found)"
    by (cases v)
  have goal: "\<exists>v. lookup lib key (common_name cert) cert_keys (private_keys st1) = Inr v \<and>
      \<not> upload_needed v" for cert_keys
  proof (cases "upload_needed v")
    case False
    with u v assms(4) have s1: "s1 = \<lparr>world = (2, st),
        calls = [(Get ''/tls/private_keys'', r1), (Get ''/tls/certificates'', r2)]\<rparr>"
      by simp
    with assms(5) have "succeeded r1" by simp
    with k1 have k: "read_private_keys r1 = private_keys st" by simp
    from s1 w1 have "st1 = st" by simp
    with lookup_same_need [OF assms(3) v, of cert_keys] False k show ?thesis by auto
  next
    case True
    obtain r3 st3 where 3: "?h (Post ''/tls/private_keys'' ?kp) (2, st) = (r3, (3, st3))"
      and k3: "succeeded r3 \<longrightarrow>
         \<lparr>pk_id = fresh_id st, pk_name = unnamed (common_name cert), pk_sha1 = fp key\<rparr>
           \<in> set (private_keys st3)"
      using fastly_post_key [of fp fails key "common_name cert" 2 st]
      by (auto simp: eval_nat_numeral)
    obtain r4 st4 where 4: "?h (Post ''/tls/certificates'' ?cp) (3, st3) = (r4, (4, st4))"
      and k4: "private_keys st4 = private_keys st3"
      using fastly_post_cert [of fp fails body chain "common_name cert" 3 st3]
      by (auto simp: eval_nat_numeral)
    obtain r5 where 5: "?h (Get ''/tls/activations'') (4, st4) = (r5, (5, st4))"
      using fastly_get_acts [of fp fails 4 st4] by (auto simp: eval_nat_numeral)
    let ?s5 = "\<lparr>world = (5::nat, st4),
       calls = calls (start st) @
         [(Get ''/tls/private_keys'', r1), (Get ''/tls/certificates'', r2),
          (Post ''/tls/private_keys'' ?kp, r3), (Post ''/tls/certificates'' ?cp, r4),
          (Get ''/tls/activations'', r5)]\<rparr>"
    let ?nk = "\<lparr>pk_id = fresh_id st, pk_name = nm, pk_sha1 = fp key\<rparr>"
    have l: "lookup lib key (common_name cert) (read_certificates r2) (read_private_keys r1) =
        Inr (priv_id, cert_id, name_found)"
      using v v' by simp
    have n: "upload_needed (priv_id, cert_id, name_found)"
      using True v' by simp
    have s1: "s1 = migrate ?h (read_activation cert_id r5) (read_created r4) cert_id priv_id ?s5"
      using assms(4) by (simp add: upload_replacing [where http = "?h", OF assms(1) 1 2 l n 3 4 5])
    have "set (calls ?s5) \<subseteq> set (calls s1)"
      unfolding s1 by (rule calls_migrate_prefix)
    with assms(5) have ok: "succeeded r1" "succeeded r3"
      by fastforce+
    from k3 ok have "?nk \<in> set (private_keys st3)"
      by (simp add: assms(2) unnamed_def)
    then have in5: "?nk \<in> set (private_keys (final ?s5))"
      by (simp add: final_def k4)
    have "priv_id \<noteq> Some (pk_id ?nk)"
    proof
      assume "priv_id = Some (pk_id ?nk)"
      with l have "pk_id ?nk \<in> pk_id ` set (read_private_keys r1)"
        by (auto dest: lookup_key_listed [OF assms(3)])
      with k1 ok have "fresh_id st \<in> set (identifiers st)"
        by (auto simp: identifiers_def)
      with fresh_id_new [of "fresh_id st" st] show False by simp
    qed
    then have "?nk \<in> set (private_keys (final s1))"
      unfolding s1 by (rule migrate_keeps_key [OF in5])
    then have "?nk \<in> set (private_keys st1)"
      by (simp add: f1)
    from lookup_match_no_need [OF assms(3) this, of "common_name cert" cert_keys]
    show ?thesis by (simp add: assms(2))
  qed
  from second_run [of lib body cert fails n1 key st1 fp chain, OF assms(1) nf goal]
  show ?thesis by (simp add: w1 f1)
qed

theorem second_run_is_no_op_witness:
  "parse_certificate example_lib ''example.com'' = Inr (Inr [''example.com'']) \<and>
   common_name (Inr [''example.com'']) = Some ''example.com'' \<and>
   get_public_key_sha1 example_lib ''new'' = Inr (example_fp ''new'') \<and>
   fst (upload example_lib (fastly example_fp never) ''example.com'' ''new'' ''chain''
     (start stale_inventory)) = Inr () \<and>
   list_all (\<lambda>call. succeeded (snd call))
     (calls (snd (upload example_lib (fastly example_fp never) ''example.com'' ''new'' ''chain''
        (start stale_inventory)))) \<and>
   requests (snd (upload example_lib (fastly example_fp never) ''example.com'' ''new'' ''chain''
     \<lparr>world = world (snd (upload example_lib (fastly example_fp never) ''example.com'' ''new''
        ''chain'' (start stale_inventory))), calls = []\<rparr>)) =
     [Get ''/tls/private_keys'', Get ''/tls/certificates''] \<and>
   final (snd (upload example_lib (fastly example_fp never) ''example.com'' ''new'' ''chain''
     \<lparr>world = world (snd (upload example_lib (fastly example_fp never) ''example.com'' ''new''
        ''chain'' (start stale_inventory))), calls = []\<rparr>)) =
     \<lparr>private_keys =
        [\<lparr>pk_id = ''xxx'', pk_name = ''example.com'', pk_sha1 = example_fp ''new''\<rparr>],
      certificates = [\<lparr>crt_id = ''xxxx'', crt_name = ''example.com''\<rparr>],
      activations =
        [\<lparr>act_id = ''a1'', act_cert = ''xxxx''\<rparr>, \<lparr>act_id = ''a2'', act_cert = ''xxxx''\<rparr>]\<rparr>"
proof -
  let ?run = "upload example_lib (fastly example_fp never) ''example.com'' ''new'' ''chain''
     (start stale_inventory)"
  have p: "parse_certificate example_lib ''example.com'' = Inr (Inr [''example.com''])"
    by (simp add: example_lib_def)
  have c: "common_name (Inr [''example.com'']) = Some ''example.com''"
    by (simp add: common_name_def strip_def whitespace_def)
  have d: "get_public_key_sha1 example_lib ''new'' = Inr (example_fp ''new'')"
    by (simp add: get_public_key_sha1_def example_lib_def example_fp_def)
  have r: "?run = (Inr (), snd ?run)"
    by (simp add: stale_run)
  have a: "list_all (\<lambda>call. succeeded (snd call)) (calls (snd ?run))"
    by (simp add: stale_run)
  then have h: "\<forall>(rq, r)\<in>set (calls (snd ?run)). succeeded r"
    by (auto simp: list_all_iff)
  have n: "\<not> never (fst (world (snd ?run)))"
    by (simp add: never_def)
  have f: "final (snd ?run) = \<lparr>private_keys =
        [\<lparr>pk_id = ''xxx'', pk_name = ''example.com'', pk_sha1 = example_fp ''new''\<rparr>],
      certificates = [\<lparr>crt_id = ''xxxx'', crt_name = ''example.com''\<rparr>],
      activations =
        [\<lparr>act_id = ''a1'', act_cert = ''xxxx''\<rparr>, \<lparr>act_id = ''a2'', act_cert = ''xxxx''\<rparr>]\<rparr>"
    by (simp add: stale_run final_def)
  from second_run_is_no_op [OF p c d r h n] p c d a f
  show ?thesis by (simp add: stale_run)
qed

text \<open>
  The claim as stated fails when the service stores another fingerprint than the one the
  plugin computes, here the digest of the DER encoding.  The first run, against the empty
  inventory, succeeds in every call.  The second run, for the same certificate and key,
  finds the key of the name with another fingerprint and uploads again: it creates a second
  key and a second certificate and deletes the ones the first run created.
\<close>

theorem second_run_uploads_counterexample:
  "upload example_lib (fastly example_der_fp never) ''example.com'' ''new'' ''chain''
     (start empty_inventory) =
   (Inr (),
    \<lparr>world =
       (5, \<lparr>private_keys =
              [\<lparr>pk_id = ''x'', pk_name = ''example.com'', pk_sha1 = example_der_fp ''new''\<rparr>],
            certificates = [\<lparr>crt_id = ''xx'', crt_name = ''example.com''\<rparr>],
            activations = []\<rparr>),
     calls =
       [(Get ''/tls/private_keys'', Inr (Private_keys [])),
        (Get ''/tls/certificates'', Inr (Certificates [])),
        (Post ''/tls/private_keys'' (Tls_private_key ''new'' (Some ''example.com'')),
         Inr (Created ''x'')),
        (Post ''/tls/certificates''
           (certificate_payload ''example.com'' ''chain'' (Some ''example.com'')),
         Inr (Created ''xx'')),
        (Get ''/tls/activations'', Inr (Activations []))]\<rparr>) \<and>
   upload example_lib (fastly example_der_fp never) ''example.com'' ''new'' ''chain''
     \<lparr>world =
        (5, \<lparr>private_keys =
               [\<lparr>pk_id = ''x'', pk_name = ''example.com'', pk_sha1 = example_der_fp ''new''\<rparr>],
             certificates = [\<lparr>crt_id = ''xx'', crt_name = ''example.com''\<rparr>],
             activations = []\<rparr>),
      calls = []\<rparr> =
   (Inr (),
    \<lparr>world =
       (12, \<lparr>private_keys =
               [\<lparr>pk_id = ''xxx'', pk_name = ''example.com'', pk_sha1 = example_der_fp ''new''\<rparr>],
             certificates = [\<lparr>crt_id = ''xxxx'', crt_name = ''example.com''\<rparr>],
             activations = []\<rparr>),
     calls =
       [(Get ''/tls/private_keys'',
         Inr (Private_keys
               [Some \<lparr>pk_id = ''x'', pk_name = ''example.com'', pk_sha1 = example_der_fp ''new''\<rparr>])),
        (Get ''/tls/certificates'',
         Inr (Certificates [Some \<lparr>crt_id = ''xx'', crt_name = ''example.com''\<rparr>])),
        (Post ''/tls/private_keys'' (Tls_private_key ''new'' (Some ''example.com'')),
         Inr (Created ''xxx'')),
        (Post ''/tls/certificates''
           (certificate_payload ''example.com'' ''chain'' (Some ''example.com'')),
         Inr (Created ''xxxx'')),
        (Get ''/tls/activations'', Inr (Activations [])),
        (Delete ''/tls/certificates/xx'', Inr Other),
        (Delete ''/tls/private_keys/x'', Inr Other)]\<rparr>)"
  by (simp add: run_defs example_defs example_der_fp_def fastly_defs Let_def eval_nat_numeral)

end
